theory Spec2Isabelle
  imports Main
begin

section \<open>Exceptions\<close>

text \<open>
  The exception classes of \<^verbatim>\<open>acord/errors.py\<close> that the modelled code raises, and the
  built-in classes it raises or catches. The message of an exception is not modelled; the
  keyword attributes that \<open>BaseExc\<close> stores (\<^verbatim>\<open>VoiceError(..., closed=True)\<close>) are.
\<close>

text \<open>
  Modelled from the spec: \<open>DecodeError\<close>, the class of a failed frame decoding. The
  decoders (\<^verbatim>\<open>acord.core.decoders\<close>) are missing from the sources and \<^verbatim>\<open>errors.py\<close> has no
  such class; the specification names the kind ("fails with DecodeError on malformed
  input"), a class of its own outside the gateway errors.
\<close>

datatype exc_class =
    Exception
  | BaseExc
  | GatewayError
  | GatewayConnectionRefused
  | GatewayConnectionClosed
  | VoiceError
  | KeyError
  | ValueError
  | TypeError
  | AttributeError
  | ZeroDivisionError
  | EOFError
  | StopAsyncIteration
  | OSError
  | DecodeError

text \<open>
  The base class: for the classes of \<^verbatim>\<open>errors.py\<close> the one their class statement names, for
  the built-in classes the nearest base among the classes above, which is \<open>Exception\<close>.
\<close>

fun base :: "exc_class \<Rightarrow> exc_class option" where
  "base Exception = None"
| "base BaseExc = Some Exception"
| "base GatewayError = Some BaseExc"
| "base GatewayConnectionRefused = Some GatewayError"
| "base GatewayConnectionClosed = Some GatewayError"
| "base VoiceError = Some BaseExc"
| "base c = Some Exception"

text \<open>\<^verbatim>\<open>issubclass(c, d)\<close>: the hierarchy above is three levels deep below \<open>Exception\<close>.\<close>

definition issubclass :: "exc_class \<Rightarrow> exc_class \<Rightarrow> bool" where
  "issubclass c d =
     (c = d \<or> base c = Some d
      \<or> (case base c of None \<Rightarrow> False
          | Some b \<Rightarrow> base b = Some d
              \<or> (case base b of None \<Rightarrow> False | Some b' \<Rightarrow> base b' = Some d)))"

datatype exc = Exc (cls: exc_class) (attrs: "(string \<times> bool) list")

text \<open>An \<^verbatim>\<open>except d:\<close> clause catches \<open>e\<close>.\<close>

definition caught_by :: "exc \<Rightarrow> exc_class \<Rightarrow> bool" where
  "caught_by e d = issubclass (cls e) d"

text \<open>\<^verbatim>\<open>getattr(err, name, False)\<close> on a \<open>BaseExc\<close>: the stored keyword attribute, if any.\<close>

definition getattr_exc :: "exc \<Rightarrow> string \<Rightarrow> bool" where
  "getattr_exc e name = (case map_of (attrs e) name of None \<Rightarrow> False | Some b \<Rightarrow> b)"

abbreviation raise :: "exc_class \<Rightarrow> exc" where
  "raise c \<equiv> Exc c []"

section \<open>Decoded payloads\<close>

text \<open>
  What a decoder returns: JSON-like values. Python's integers are unbounded (\<open>int\<close>);
  floating-point numbers do not occur in the fields the handler reads and are left out.
  An object is an association list in which the first binding of a key counts.
\<close>

datatype json =
    JNull
  | JBool bool
  | JInt int
  | JStr string
  | JList "json list"
  | JObj "(string \<times> json) list"

text \<open>\<^verbatim>\<open>value[name]\<close> with a string subscript.\<close>

fun getitem :: "json \<Rightarrow> string \<Rightarrow> exc + json" where
  "getitem (JObj kvs) name =
     (case map_of kvs name of None \<Rightarrow> Inl (raise KeyError) | Some v \<Rightarrow> Inr v)"
| "getitem v name = Inl (raise TypeError)"

text \<open>\<^verbatim>\<open>value.get(name, default)\<close>: only a dict has it.\<close>

fun get_default :: "json \<Rightarrow> string \<Rightarrow> json \<Rightarrow> exc + json" where
  "get_default (JObj kvs) name dflt =
     (case map_of kvs name of None \<Rightarrow> Inr dflt | Some v \<Rightarrow> Inr v)"
| "get_default v name dflt = Inl (raise AttributeError)"

section \<open>The shard\<close>

type_synonym kwds = "(string \<times> string) list"

text \<open>
  What the shard asks of its collaborators (the aiohttp session and socket, the gateway
  rate limiter, the heartbeat thread, the event loop), in the order it asks. A socket is
  named by a number.
\<close>

datatype call =
    WsConnect string kwds
  | WsClose nat int
  | WsReceive nat
  | WsSendStr nat json
  | WsSendJson nat json
  | RlEnter
  | RlExceeded int
  | RlHoldUntilReset int
  | RlIncrement int bool
  | RlExit
  | KeepAliveStart
  | CreateTask kwds
  | TaskCancel nat string

text \<open>
  \<open>GatewayKeepAlive\<close> as the shard sees it: the interval it was built with and the two
  attributes the shard assigns, \<^verbatim>\<open>_ended\<close> and \<^verbatim>\<open>_ws\<close>.
\<close>

record GatewayKeepAlive =
  heartbeat_interval :: json
  ended :: bool
  ka_ws :: "nat option"

text \<open>
  The \<open>handler\<close> of a shard: the default of \<^verbatim>\<open>__init__\<close>, which is the function
  \<^verbatim>\<open>handle_websocket(self, ws)\<close>, or a callable of the user's own, given by what calling it
  with keyword arguments does: it returns a coroutine (\<open>None\<close>) or raises.
\<close>

datatype handler = Default_handler | Custom_handler "kwds \<Rightarrow> exc option"

text \<open>
  The attributes of \<open>Shard\<close>. \<^verbatim>\<open>__init__\<close> assigns \<open>ws\<close>, \<open>sequence\<close>, \<open>session_id\<close> and
  \<open>gateway_version\<close> to \<open>None\<close>; \<^verbatim>\<open>_snd_kwds\<close>, \<^verbatim>\<open>_keep_alive\<close> and \<open>task\<close> do not exist
  until \<open>connect\<close>, \<open>receive_hello\<close> and \<open>listen\<close> assign them (\<open>None\<close> below is the missing
  attribute). \<open>token\<close> is \<^verbatim>\<open>self.client.token\<close>; \<open>trace\<close> records the calls made.
\<close>

record Shard =
  url :: string
  shard_id :: int
  num_shards :: int
  token :: string
  handler :: handler
  ws :: "nat option"
  sequence :: "int option"
  session_id :: "string option"
  gateway_version :: "string option"
  resuming :: bool
  snd_kwds :: "kwds option"
  keep_alive :: "GatewayKeepAlive option"
  task :: "nat option"
  trace :: "call list"

text \<open>
  \<^verbatim>\<open>Shard.__init__\<close> with the default handler; the rate limiter's \<open>add_shard\<close> is outside
  the model.
\<close>

definition Shard_init :: "string \<Rightarrow> int \<Rightarrow> int \<Rightarrow> string \<Rightarrow> Shard" where
  "Shard_init u sid n tok =
     \<lparr> url = u, shard_id = sid, num_shards = n, token = tok, handler = Default_handler,
       ws = None, sequence = None, session_id = None, gateway_version = None,
       resuming = False, snd_kwds = None, keep_alive = None, task = None, trace = [] \<rparr>"

text \<open>
  \<^verbatim>\<open>return ((guild_id >> 22) % self.num_shards) == self.shard_id\<close>. On Python's integers
  \<^verbatim>\<open>>>\<close> is the arithmetic shift (\<open>drop_bit\<close> on \<open>int\<close>) and \<^verbatim>\<open>%\<close> takes the sign of the
  divisor, as \<open>mod\<close> on \<open>int\<close> does; a zero divisor raises.
\<close>

definition contains_guild :: "Shard \<Rightarrow> int \<Rightarrow> exc + bool" where
  "contains_guild self guild_id =
     (if num_shards self = 0 then Inl (raise ZeroDivisionError)
      else Inr (drop_bit 22 guild_id mod num_shards self = shard_id self))"

text \<open>\<^verbatim>\<open>ratelimit_key\<close>: \<^verbatim>\<open>self.shard_id % self.num_shards\<close>.\<close>

definition ratelimit_key :: "Shard \<Rightarrow> exc + int" where
  "ratelimit_key self =
     (if num_shards self = 0 then Inl (raise ZeroDivisionError)
      else Inr (shard_id self mod num_shards self))"

subsection \<open>Gateway op codes\<close>

text \<open>
  Modelled from the spec: the module \<^verbatim>\<open>acord.core.signals\<close> with the constants
  \<^verbatim>\<open>gateway.IDENTIFY\<close>, \<^verbatim>\<open>gateway.RESUME\<close>, \<^verbatim>\<open>gateway.INVALIDSESSION\<close>, \<^verbatim>\<open>gateway.HELLO\<close> and
  \<^verbatim>\<open>gateway.HEARTBEATACK\<close> is missing from the sources. The specification lists the op codes:
  2 Identify, 6 Resume, 9 InvalidSession, 10 Hello, 11 HeartbeatAck.
\<close>

definition IDENTIFY :: int where "IDENTIFY = 2"
definition RESUME :: int where "RESUME = 6"
definition INVALIDSESSION :: int where "INVALIDSESSION = 9"
definition HELLO :: int where "HELLO = 10"
definition HEARTBEATACK :: int where "HEARTBEATACK = 11"

subsection \<open>Collaborators\<close>

text \<open>
  How the collaborators answer, as a function of the calls made so far (the last element
  of the list is the call being answered): whether that call raises, what
  \<^verbatim>\<open>lock.exceeded(key)\<close> returns, and what \<^verbatim>\<open>decodeResponse(packet.data)\<close> gives for the packet
  that \<^verbatim>\<open>ws.receive()\<close> returned. \<open>platform\<close> is \<^verbatim>\<open>sys.platform\<close>.
\<close>

record env =
  fails :: "call list \<Rightarrow> exc option"
  exceeded :: "call list \<Rightarrow> bool"
  received :: "call list \<Rightarrow> exc + json"
  platform :: string

datatype 'a outcome = Returned 'a | Raised exc

text \<open>One call to a collaborator: it is recorded, then it returns or raises.\<close>

definition perform :: "env \<Rightarrow> call \<Rightarrow> Shard \<Rightarrow> exc option \<times> Shard" where
  "perform E c self =
     (let tr = trace self @ [c] in (fails E tr, self\<lparr>trace := tr\<rparr>))"

subsection \<open>Methods\<close>

text \<open>
  \<^verbatim>\<open>connect\<close>: \<^verbatim>\<open>self.ws = await self.session.ws_connect(self.url, **kwds)\<close>, then
  \<^verbatim>\<open>self._snd_kwds = kwds\<close>. The new socket is named by the position of the call.
\<close>

definition connect :: "env \<Rightarrow> kwds \<Rightarrow> Shard \<Rightarrow> unit outcome \<times> Shard" where
  "connect E kwds self =
     (case perform E (WsConnect (url self) kwds) self of
        (Some e, s) \<Rightarrow> (Raised e, s)
      | (None, s) \<Rightarrow>
          (Returned (), s\<lparr>ws := Some (length (trace self)), snd_kwds := Some kwds\<rparr>))"

text \<open>
  \<^verbatim>\<open>receive_hello\<close>: one packet is received and decoded; an op other than \<open>HELLO\<close> raises
  \<open>GatewayError\<close>; else the monitor is built with \<^verbatim>\<open>data["d"]["heartbeat_interval"]\<close> and
  started.
\<close>

text \<open>
  Modelled from the spec: the class \<open>GatewayKeepAlive\<close> (\<^verbatim>\<open>acord.core.heartbeat\<close>) is missing
  from the sources. The monitor is "created after Hello, stopped on disconnect": it
  starts not ended, on the shard's current socket.
\<close>

definition receive_hello :: "env \<Rightarrow> Shard \<Rightarrow> unit outcome \<times> Shard" where
  "receive_hello E self =
     (case ws self of
        None \<Rightarrow> (Raised (raise AttributeError), self)
      | Some w \<Rightarrow>
          (case perform E (WsReceive w) self of
             (Some e, s) \<Rightarrow> (Raised e, s)
           | (None, s) \<Rightarrow>
               (case received E (trace s) of
                  Inl e \<Rightarrow> (Raised e, s)
                | Inr data \<Rightarrow>
                    (case get_default data ''op'' (JInt 0) of
                       Inl e \<Rightarrow> (Raised e, s)
                     | Inr opc \<Rightarrow>
                         if opc \<noteq> JInt HELLO then (Raised (raise GatewayError), s)
                         else
                           (case getitem data ''d'' of
                              Inl e \<Rightarrow> (Raised e, s)
                            | Inr d \<Rightarrow>
                                (case getitem d ''heartbeat_interval'' of
                                   Inl e \<Rightarrow> (Raised e, s)
                                 | Inr iv \<Rightarrow>
                                     (let s' = s\<lparr>keep_alive :=
                                                  Some \<lparr>heartbeat_interval = iv, ended = False,
                                                        ka_ws = ws s\<rparr>\<rparr>
                                      in case perform E KeepAliveStart s' of
                                           (Some e, s'') \<Rightarrow> (Raised e, s'')
                                         | (None, s'') \<Rightarrow> (Returned (), s''))))))))"

text \<open>
  The block that \<open>send_identity\<close>, \<open>resume\<close>, \<open>change_presence\<close> and \<open>update_voice_state\<close>
  all begin with:
  \<^verbatim>\<open>
  async with self.ratelimiter as lock:
      if lock.exceeded(self.ratelimit_key):
          await lock.hold_until_reset(self.ratelimit_key)
      lock.increment(self.ratelimit_key, lock_if_exceed=True)
  \<close>
  An exception inside the block leaves through the context manager's exit and goes on
  to the caller.
\<close>

definition ratelimited_body :: "env \<Rightarrow> Shard \<Rightarrow> exc option \<times> Shard" where
  "ratelimited_body E self =
     (case ratelimit_key self of
        Inl e \<Rightarrow> (Some e, self)
      | Inr key \<Rightarrow>
          (case perform E (RlExceeded key) self of
             (Some e, s) \<Rightarrow> (Some e, s)
           | (None, s) \<Rightarrow>
               (case (if exceeded E (trace s) then perform E (RlHoldUntilReset key) s
                      else (None, s)) of
                  (Some e, s') \<Rightarrow> (Some e, s')
                | (None, s') \<Rightarrow> perform E (RlIncrement key True) s')))"

definition ratelimited :: "env \<Rightarrow> Shard \<Rightarrow> exc option \<times> Shard" where
  "ratelimited E self =
     (case perform E RlEnter self of
        (Some e, s) \<Rightarrow> (Some e, s)
      | (None, s) \<Rightarrow>
          (case ratelimited_body E s of
             (Some e, s') \<Rightarrow> (Some e, snd (perform E RlExit s'))
           | (None, s') \<Rightarrow> perform E RlExit s'))"

text \<open>
  \<^verbatim>\<open>send_identity\<close>: the identify payload is \<open>IDENTITY_PCK\<close> updated with token, intents,
  presence and the shard pair, under op \<open>IDENTIFY\<close>.
\<close>

definition identify_payload :: "env \<Rightarrow> Shard \<Rightarrow> string \<Rightarrow> int \<Rightarrow> json \<Rightarrow> json" where
  "identify_payload E self tok intents presence =
     JObj [(''op'', JInt IDENTIFY),
           (''d'', JObj [(''properties'',
                            JObj [(''$os'', JStr (platform E)), (''$browser'', JStr ''acord''),
                                  (''$device'', JStr ''acord''), (''$referrer'', JNull),
                                  (''$referring_domain'', JNull)]),
                         (''compress'', JBool True),
                         (''large_threshold'', JInt 250),
                         (''token'', JStr tok),
                         (''intents'', JInt intents),
                         (''presence'', presence),
                         (''shard'', JList [JInt (shard_id self), JInt (num_shards self)])])]"

definition send_identity ::
    "env \<Rightarrow> string \<Rightarrow> int \<Rightarrow> json \<Rightarrow> Shard \<Rightarrow> unit outcome \<times> Shard" where
  "send_identity E tok intents presence self =
     (case ratelimited E self of
        (Some e, s) \<Rightarrow> (Raised e, s)
      | (None, s) \<Rightarrow>
          (case ws s of
             None \<Rightarrow> (Raised (raise AttributeError), s)
           | Some w \<Rightarrow>
               (case perform E (WsSendStr w (identify_payload E s tok intents presence)) s of
                  (Some e, s') \<Rightarrow> (Raised e, s')
                | (None, s') \<Rightarrow> (Returned (), s'))))"

text \<open>
  \<^verbatim>\<open>listen\<close>:
  \<^verbatim>\<open>
  coro = self.handler(**kwds)
  self.task = self.loop.create_task(coro)
  return self.task
  \<close>
  \<open>listen\<close> has a parameter \<open>self\<close> of its own, so a keyword \<open>self\<close> among \<open>kwds\<close> is a
  \<open>TypeError\<close> of the call. The handler is an attribute of the instance and is called
  without the shard: the default \<^verbatim>\<open>handle_websocket(self, ws)\<close> then lacks its argument \<open>self\<close>,
  a \<open>TypeError\<close> whatever \<open>kwds\<close> holds. The task is named by the position of the call
  that creates it.
\<close>

definition call_handler :: "handler \<Rightarrow> kwds \<Rightarrow> exc option" where
  "call_handler h kwds =
     (case h of
        Default_handler \<Rightarrow> Some (raise TypeError)
      | Custom_handler call \<Rightarrow> call kwds)"

definition listen :: "env \<Rightarrow> kwds \<Rightarrow> Shard \<Rightarrow> nat outcome \<times> Shard" where
  "listen E kwds self =
     (if ''self'' \<in> fst ` set kwds then (Raised (raise TypeError), self)
      else
        (case call_handler (handler self) kwds of
           Some e \<Rightarrow> (Raised e, self)
         | None \<Rightarrow>
             (case perform E (CreateTask kwds) self of
                (Some e, s) \<Rightarrow> (Raised e, s)
              | (None, s) \<Rightarrow>
                  (Returned (length (trace self)),
                   s\<lparr>task := Some (length (trace self))\<rparr>))))"

text \<open>
  \<^verbatim>\<open>disconnect\<close>:
  \<^verbatim>\<open>
  self._keep_alive._ended = True
  await self.ws.close(code=4000)
  if getattr(self, "task", None):
      self.task.cancel(msg="Disconnect called")
  \<close>
\<close>

definition disconnect :: "env \<Rightarrow> Shard \<Rightarrow> unit outcome \<times> Shard" where
  "disconnect E self =
     (case keep_alive self of
        None \<Rightarrow> (Raised (raise AttributeError), self)
      | Some ka \<Rightarrow>
          (let s = self\<lparr>keep_alive := Some (ka\<lparr>ended := True\<rparr>)\<rparr> in
           case ws s of
             None \<Rightarrow> (Raised (raise AttributeError), s)
           | Some w \<Rightarrow>
               (case perform E (WsClose w 4000) s of
                  (Some e, s') \<Rightarrow> (Raised e, s')
                | (None, s') \<Rightarrow>
                    (case task s' of
                       None \<Rightarrow> (Returned (), s')
                     | Some t \<Rightarrow>
                         (case perform E (TaskCancel t ''Disconnect called'') s' of
                            (Some e, s'') \<Rightarrow> (Raised e, s'')
                          | (None, s'') \<Rightarrow> (Returned (), s''))))))"

text \<open>The resume payload: \<^verbatim>\<open>{"op": RESUME, "d": {"token", "session_id", "seq"}}\<close>.\<close>

definition resume_payload :: "Shard \<Rightarrow> json" where
  "resume_payload self =
     JObj [(''op'', JInt RESUME),
           (''d'', JObj [(''token'', JStr (token self)),
                         (''session_id'',
                            case session_id self of None \<Rightarrow> JNull | Some i \<Rightarrow> JStr i),
                         (''seq'', case sequence self of None \<Rightarrow> JNull | Some n \<Rightarrow> JInt n)])]"

text \<open>
  The \<^verbatim>\<open>if restart:\<close> block of \<open>resume\<close>:
  \<^verbatim>\<open>
  await self.ws.close(code=4000)
  await self.connect(**self._snd_kwds)
  self._keep_alive._ws = self.ws
  \<close>
\<close>

definition restart_socket :: "env \<Rightarrow> Shard \<Rightarrow> exc option \<times> Shard" where
  "restart_socket E self =
     (case ws self of
        None \<Rightarrow> (Some (raise AttributeError), self)
      | Some w \<Rightarrow>
          (case perform E (WsClose w 4000) self of
             (Some e, s) \<Rightarrow> (Some e, s)
           | (None, s) \<Rightarrow>
               (case snd_kwds s of
                  None \<Rightarrow> (Some (raise AttributeError), s)
                | Some kwds \<Rightarrow>
                    (case connect E kwds s of
                       (Raised e, s') \<Rightarrow> (Some e, s')
                     | (Returned u, s') \<Rightarrow>
                         (case keep_alive s' of
                            None \<Rightarrow> (Some (raise AttributeError), s')
                          | Some ka \<Rightarrow>
                              (None, s'\<lparr>keep_alive := Some (ka\<lparr>ka_ws := ws s'\<rparr>)\<rparr>))))))"

text \<open>
  \<^verbatim>\<open>resume\<close>: the restart block if asked for, the rate-limited block, then
  \<^verbatim>\<open>self.resuming = True\<close>, \<^verbatim>\<open>await self.ws.send_json(...)\<close> and \<^verbatim>\<open>return self.ws\<close>.
\<close>

definition resume :: "env \<Rightarrow> bool \<Rightarrow> Shard \<Rightarrow> nat outcome \<times> Shard" where
  "resume E restart self =
     (case (if restart then restart_socket E self else (None, self)) of
        (Some e, s) \<Rightarrow> (Raised e, s)
      | (None, s) \<Rightarrow>
          (case ratelimited E s of
             (Some e, s') \<Rightarrow> (Raised e, s')
           | (None, s') \<Rightarrow>
               (let s'' = s'\<lparr>resuming := True\<rparr> in
                case ws s'' of
                  None \<Rightarrow> (Raised (raise AttributeError), s'')
                | Some w \<Rightarrow>
                    (case perform E (WsSendJson w (resume_payload s'')) s'' of
                       (Some e, s3) \<Rightarrow> (Raised e, s3)
                     | (None, s3) \<Rightarrow> (Returned w, s3)))))"

text \<open>Collaborators that never raise, with a rate limiter that is never exceeded.\<close>

definition calm :: env where
  "calm = \<lparr> fails = (\<lambda>tr. None), exceeded = (\<lambda>tr. False),
            received = (\<lambda>tr. Inr (JObj [(''op'', JInt HELLO),
                                         (''d'', JObj [(''heartbeat_interval'', JInt 41250)])])),
            platform = ''linux'' \<rparr>"

text \<open>A handler of the user's own that takes any keyword arguments.\<close>

definition any_kwds :: "kwds \<Rightarrow> exc option" where
  "any_kwds kwds = None"

text \<open>
  A shard with that handler that went through the documented start-up (\<open>connect\<close>,
  \<open>receive_hello\<close>, \<open>listen\<close>) and whose session has since been given the id \<^verbatim>\<open>"abc"\<close> and the
  sequence number 42.
\<close>

definition listening :: Shard where
  "listening =
     (snd (listen calm []
        (snd (receive_hello calm
           (snd (connect calm []
              ((Shard_init ''wss://gateway'' 0 1 ''tok'')
                 \<lparr>handler := Custom_handler any_kwds\<rparr>)))))))
       \<lparr>session_id := Some ''abc'', sequence := Some 42\<rparr>"

section \<open>The event handler\<close>

subsection \<open>Python values as the handler uses them\<close>

text \<open>
  \<^verbatim>\<open>a == b\<close> on decoded values: \<open>True\<close> and \<open>False\<close> equal 1 and 0; everything else is
  compared by structure (objects as association lists).
\<close>

fun py_eq :: "json \<Rightarrow> json \<Rightarrow> bool" where
  "py_eq (JBool b) (JInt n) = (n = (if b then 1 else 0))"
| "py_eq (JInt n) (JBool b) = (n = (if b then 1 else 0))"
| "py_eq x y = (x = y)"

text \<open>\<^verbatim>\<open>x in xs\<close> and \<^verbatim>\<open>xs.remove(x)\<close>, which raises \<open>ValueError\<close> when \<open>x\<close> is absent.\<close>

fun py_in :: "json \<Rightarrow> json list \<Rightarrow> bool" where
  "py_in x [] = False"
| "py_in x (y # ys) = (py_eq y x \<or> py_in x ys)"

fun py_remove :: "json \<Rightarrow> json list \<Rightarrow> exc + json list" where
  "py_remove x [] = Inl (raise ValueError)"
| "py_remove x (y # ys) =
     (if py_eq y x then Inr ys
      else (case py_remove x ys of Inl e \<Rightarrow> Inl e | Inr zs \<Rightarrow> Inr (y # zs)))"

text \<open>Dictionary keys: a hashable decoded value. \<open>True\<close> and \<open>False\<close> hash as 1 and 0.\<close>

datatype key = KNone | KInt int | KStr string

fun as_key :: "json \<Rightarrow> exc + key" where
  "as_key JNull = Inr KNone"
| "as_key (JBool b) = Inr (KInt (if b then 1 else 0))"
| "as_key (JInt n) = Inr (KInt n)"
| "as_key (JStr s) = Inr (KStr s)"
| "as_key (JList xs) = Inl (raise TypeError)"
| "as_key (JObj kvs) = Inl (raise TypeError)"

text \<open>
  \<^verbatim>\<open>int(s)\<close> on an ASCII string: surrounding white space is dropped, a sign may lead, and
  the digits may be grouped by single underscores.
\<close>

definition is_space :: "char \<Rightarrow> bool" where
  "is_space c = ((of_char c :: nat) \<in> {9, 10, 11, 12, 13, 32})"

definition is_digit :: "char \<Rightarrow> bool" where
  "is_digit c = (48 \<le> (of_char c :: nat) \<and> (of_char c :: nat) \<le> 57)"

definition strip :: "string \<Rightarrow> string" where
  "strip s = rev (dropWhile is_space (rev (dropWhile is_space s)))"

fun parse_digits :: "string \<Rightarrow> int \<Rightarrow> bool \<Rightarrow> int option" where
  "parse_digits [] acc prev_digit = (if prev_digit then Some acc else None)"
| "parse_digits (c # cs) acc prev_digit =
     (if is_digit c then parse_digits cs (10 * acc + (of_char c - 48)) True
      else if c = CHR ''_'' \<and> prev_digit then parse_digits cs acc False
      else None)"

definition int_of_string :: "string \<Rightarrow> int option" where
  "int_of_string s =
     (case strip s of
        [] \<Rightarrow> None
      | c # cs \<Rightarrow>
          if c = CHR ''-'' then map_option uminus (parse_digits cs 0 False)
          else if c = CHR ''+'' then parse_digits cs 0 False
          else parse_digits (c # cs) 0 False)"

text \<open>\<^verbatim>\<open>int(x)\<close> on a decoded value.\<close>

fun py_int :: "json \<Rightarrow> exc + int" where
  "py_int (JInt n) = Inr n"
| "py_int (JBool b) = Inr (if b then 1 else 0)"
| "py_int (JStr s) =
     (case int_of_string s of None \<Rightarrow> Inl (raise ValueError) | Some n \<Rightarrow> Inr n)"
| "py_int v = Inl (raise TypeError)"

text \<open>
  \<^verbatim>\<open>[i["id"] for i in value]\<close>: a list gives its elements; iterating a dict or a string
  gives strings, on which the subscript raises; the other values are not iterable.
\<close>

fun ids_of :: "json list \<Rightarrow> exc + json list" where
  "ids_of [] = Inr []"
| "ids_of (i # rest) =
     (case getitem i ''id'' of
        Inl e \<Rightarrow> Inl e
      | Inr v \<Rightarrow> (case ids_of rest of Inl e \<Rightarrow> Inl e | Inr vs \<Rightarrow> Inr (v # vs)))"

fun guild_ids :: "json \<Rightarrow> exc + json list" where
  "guild_ids (JList xs) = ids_of xs"
| "guild_ids (JObj kvs) = (if kvs = [] then Inr [] else Inl (raise TypeError))"
| "guild_ids (JStr s) = (if s = [] then Inr [] else Inl (raise TypeError))"
| "guild_ids v = Inl (raise TypeError)"

subsection \<open>Frames, models and the client\<close>

text \<open>A socket message: \<^verbatim>\<open>message.data\<close> is \<open>bytes\<close>, \<open>str\<close> or \<open>None\<close>.\<close>

datatype wsdata = Bytes "char list" | Text string | NoData

datatype WSMessage = WSMessage (data: wsdata)

text \<open>
  The collaborators of the handler that are not in the sources, over any type \<open>'e\<close> of
  entities: the decoders of \<^verbatim>\<open>acord.core.decoders\<close>, the model constructors \<open>User\<close>,
  \<open>Message\<close>, \<open>Guild\<close> and \<^verbatim>\<open>_d_to_channel\<close> (each may raise), the \<^verbatim>\<open>id\<close> attribute of an
  entity as a dictionary key, and the string \<^verbatim>\<open>f"{message.channel_id}:{message.id}"\<close>.
\<close>

text \<open>
  Modelled from the spec: \<open>touch_channel\<close> stands for
  \<^verbatim>\<open>if hasattr(message.channel, 'last_message_id'): message.channel.last_message_id = message.id\<close>,
  whose \<^verbatim>\<open>message.channel\<close> property is missing from the sources: it "updates the owning
  channel's last-message marker if the channel entity supports it", taking the channel
  cache to the updated one, or raises.
\<close>

record 'e models =
  decompressResponse :: "char list \<Rightarrow> exc + string"
  ETF :: "string \<Rightarrow> exc + json"
  JSON :: "string \<Rightarrow> exc + json"
  User :: "json \<Rightarrow> exc + 'e"
  Message :: "json \<Rightarrow> exc + 'e"
  Guild :: "json \<Rightarrow> exc + 'e"
  d_to_channel :: "json \<Rightarrow> exc + 'e"
  id_of :: "'e \<Rightarrow> key"
  message_key :: "'e \<Rightarrow> string"
  touch_channel :: "'e \<Rightarrow> (key \<rightharpoonup> 'e) \<Rightarrow> exc + (key \<rightharpoonup> 'e)"

datatype 'e arg = AMessage WSMessage | AEntity 'e

text \<open>
  The client the handler works on: the events dispatched so far, the attributes the
  handler assigns, the four tables of \<open>INTERNAL_STORAGE\<close> and the module attribute
  \<^verbatim>\<open>gateway.SEQUENCE\<close> (\<open>None\<close> where nothing has been assigned yet).
\<close>

record 'e client =
  dispatched :: "(string \<times> 'e arg list) list"
  client_session_id :: "json option"
  client_gateway_version :: "json option"
  user :: "'e option"
  users :: "key \<rightharpoonup> 'e"
  messages :: "key \<rightharpoonup> 'e"
  guilds :: "key \<rightharpoonup> 'e"
  channels :: "key \<rightharpoonup> 'e"
  SEQUENCE :: "json option"

text \<open>
  Modelled from the spec: \<^verbatim>\<open>Client.dispatch\<close> is missing from the sources. Subscribers are
  invoked best-effort ("a failing callback must not abort dispatch of subsequent callbacks
  or frames"), so \<open>dispatch\<close> returns; the event and its arguments are recorded.
\<close>

definition dispatch :: "string \<Rightarrow> 'e arg list \<Rightarrow> 'e client \<Rightarrow> 'e client" where
  "dispatch name args self = self\<lparr>dispatched := dispatched self @ [(name, args)]\<rparr>"

subsection \<open>One frame\<close>

text \<open>
  How a statement of the loop body ends: it goes on to the next statement, it executes
  \<^verbatim>\<open>continue\<close>, or it raises. The state of the body is the local list \<open>UNAVAILABLE\<close> and the
  client.
\<close>

datatype flow = Proceed | Continue | Throw exc

type_synonym 'e body = "json list \<times> 'e client"

definition attempt :: "exc + 'a \<Rightarrow> 's \<Rightarrow> ('a \<Rightarrow> flow \<times> 's) \<Rightarrow> flow \<times> 's" where
  "attempt r st k = (case r of Inl e \<Rightarrow> (Throw e, st) | Inr x \<Rightarrow> k x)"

definition seq ::
    "('s \<Rightarrow> flow \<times> 's) \<Rightarrow> ('s \<Rightarrow> flow \<times> 's) \<Rightarrow> 's \<Rightarrow> flow \<times> 's" where
  "seq a b st = (case a st of (Proceed, st') \<Rightarrow> b st' | r \<Rightarrow> r)"

text \<open>
  Lines 16 to 26: the text of the frame is decompressed if it came as bytes; an empty
  frame is skipped (\<open>None\<close>); a text that does not start with \<^verbatim>\<open>{\<close> goes to \<open>ETF\<close>, the
  others to \<open>JSON\<close>.
\<close>

definition startswith_brace :: "string \<Rightarrow> bool" where
  "startswith_brace s = (case s of [] \<Rightarrow> False | c # cs \<Rightarrow> c = CHR ''{'')"

definition decode_text :: "'e models \<Rightarrow> string \<Rightarrow> exc + json option" where
  "decode_text M s =
     (if s = [] then Inr None
      else (case (if \<not> startswith_brace s then ETF M s else JSON M s) of
              Inl e \<Rightarrow> Inl e
            | Inr d \<Rightarrow> Inr (Some d)))"

definition decoded :: "'e models \<Rightarrow> WSMessage \<Rightarrow> exc + json option" where
  "decoded M message =
     (case data message of
        NoData \<Rightarrow> Inr None
      | Text s \<Rightarrow> decode_text M s
      | Bytes b \<Rightarrow>
          (case decompressResponse M b of Inl e \<Rightarrow> Inl e | Inr s \<Rightarrow> decode_text M s))"

text \<open>Lines 28 to 31: \<open>EVENT\<close>, \<open>OPERATION\<close>, \<open>DATA\<close> and \<open>SEQUENCE\<close>, read in this order.\<close>

definition envelope :: "json \<Rightarrow> exc + (json \<times> json \<times> json \<times> json)" where
  "envelope d =
     (case getitem d ''t'' of
        Inl e \<Rightarrow> Inl e
      | Inr EVENT \<Rightarrow>
          (case getitem d ''op'' of
             Inl e \<Rightarrow> Inl e
           | Inr OPERATION \<Rightarrow>
               (case getitem d ''d'' of
                  Inl e \<Rightarrow> Inl e
                | Inr DATA \<Rightarrow>
                    (case getitem d ''s'' of
                       Inl e \<Rightarrow> Inl e
                     | Inr SEQ \<Rightarrow> Inr (EVENT, OPERATION, DATA, SEQ)))))"

text \<open>Lines 36 to 44.\<close>

definition on_invalid_session :: "json \<Rightarrow> 'e body \<Rightarrow> flow \<times> 'e body" where
  "on_invalid_session OPERATION st =
     (if py_eq OPERATION (JInt INVALIDSESSION)
      then (Throw (raise GatewayConnectionRefused), st)
      else (Proceed, st))"

definition on_heartbeat_ack :: "json \<Rightarrow> 'e body \<Rightarrow> flow \<times> 'e body" where
  "on_heartbeat_ack OPERATION st =
     (if py_eq OPERATION (JInt HEARTBEATACK)
      then (Proceed, (fst st, dispatch ''heartbeat'' [] (snd st)))
      else (Proceed, st))"

text \<open>Lines 46 to 56, \<open>READY\<close>; the branch ends in \<^verbatim>\<open>continue\<close>.\<close>

definition on_ready :: "'e models \<Rightarrow> json \<Rightarrow> json \<Rightarrow> 'e body \<Rightarrow> flow \<times> 'e body" where
  "on_ready M EVENT DATA st =
     (if \<not> py_eq EVENT (JStr ''READY'') then (Proceed, st)
      else
        (let U = fst st; s1 = dispatch ''ready'' [] (snd st) in
         attempt (getitem DATA ''session_id'') (U, s1) (\<lambda>sid.
         let s2 = s1\<lparr>client_session_id := Some sid\<rparr> in
         attempt (getitem DATA ''v'') (U, s2) (\<lambda>v.
         let s3 = s2\<lparr>client_gateway_version := Some v\<rparr> in
         attempt (getitem DATA ''user'') (U, s3) (\<lambda>u.
         attempt (User M u) (U, s3) (\<lambda>usr.
         let s4 = s3\<lparr>user := Some usr\<rparr> in
         attempt (getitem DATA ''guilds'') (U, s4) (\<lambda>gs.
         attempt (guild_ids gs) (U, s4) (\<lambda>ids.
         (Continue, (ids, s4\<lparr>users := (users s4)(id_of M usr \<mapsto> usr)\<rparr>))))))))))"

text \<open>Lines 58 to 71, \<open>MESSAGE_CREATE\<close>; a \<open>ValueError\<close> of the channel update is passed over.\<close>

definition on_message_create ::
    "'e models \<Rightarrow> json \<Rightarrow> json \<Rightarrow> 'e body \<Rightarrow> flow \<times> 'e body" where
  "on_message_create M EVENT DATA st =
     (if \<not> py_eq EVENT (JStr ''MESSAGE_CREATE'') then (Proceed, st)
      else
        (let U = fst st; self = snd st in
         attempt (Message M DATA) st (\<lambda>message.
         attempt (case touch_channel M message (channels self) of
                    Inl e \<Rightarrow> if caught_by e ValueError then Inr (channels self) else Inl e
                  | Inr ch \<Rightarrow> Inr ch) st (\<lambda>ch.
         let s1 = self\<lparr>channels := ch\<rparr>;
             s2 = s1\<lparr>messages := (messages s1)(KStr (message_key M message) \<mapsto> message)\<rparr>
         in (Proceed, (U, dispatch ''message'' [AEntity message] s2))))))"

text \<open>Lines 73 to 82, \<open>GUILD_CREATE\<close>.\<close>

definition on_guild_create ::
    "'e models \<Rightarrow> json \<Rightarrow> json \<Rightarrow> 'e body \<Rightarrow> flow \<times> 'e body" where
  "on_guild_create M EVENT DATA st =
     (if \<not> py_eq EVENT (JStr ''GUILD_CREATE'') then (Proceed, st)
      else
        (let U = fst st; self = snd st in
         attempt (Guild M DATA) st (\<lambda>guild.
         attempt (getitem DATA ''id'') st (\<lambda>gid.
         if py_in gid U
         then attempt (py_remove gid U) st (\<lambda>U'.
                let s1 = dispatch ''guild_recv'' [AEntity guild] self in
                attempt (py_int gid) (U', s1) (\<lambda>k.
                (Proceed, (U', s1\<lparr>guilds := (guilds s1)(KInt k \<mapsto> guild)\<rparr>))))
         else
           (let s1 = dispatch ''guild_create'' [AEntity guild] self in
            attempt (py_int gid) (U, s1) (\<lambda>k.
            (Proceed, (U, s1\<lparr>guilds := (guilds s1)(KInt k \<mapsto> guild)\<rparr>))))))))"

text \<open>Lines 84 to 93, \<open>GUILD_DELETE\<close>.\<close>

definition on_guild_delete ::
    "'e models \<Rightarrow> json \<Rightarrow> json \<Rightarrow> 'e body \<Rightarrow> flow \<times> 'e body" where
  "on_guild_delete M EVENT DATA st =
     (if \<not> py_eq EVENT (JStr ''GUILD_DELETE'') then (Proceed, st)
      else
        (let U = fst st; self = snd st in
         attempt (get_default DATA ''unavailable'' JNull) st (\<lambda>marker.
         if marker \<noteq> JNull
         then attempt (Guild M DATA) st (\<lambda>guild.
              attempt (getitem DATA ''id'') st (\<lambda>gid.
              attempt (py_remove gid U) st (\<lambda>U'.
              let s1 = dispatch ''guild_outage'' [AEntity guild] self in
              attempt (py_int gid) (U', s1) (\<lambda>k.
              (Proceed, (U', s1\<lparr>guilds := (guilds s1)(KInt k \<mapsto> guild)\<rparr>))))))
         else attempt (getitem DATA ''id'') st (\<lambda>gid.
              attempt (as_key gid) st (\<lambda>k.
              case guilds self k of
                None \<Rightarrow> (Throw (raise KeyError), st)
              | Some guild \<Rightarrow>
                  (Proceed, (U, dispatch ''guild_remove'' [AEntity guild]
                                  (self\<lparr>guilds := (guilds self)(k := None)\<rparr>))))))))"

text \<open>Lines 95 to 109, the channel events.\<close>

definition on_channel_upsert ::
    "'e models \<Rightarrow> string \<Rightarrow> string \<Rightarrow> json \<Rightarrow> json \<Rightarrow> 'e body \<Rightarrow> flow \<times> 'e body" where
  "on_channel_upsert M name fired EVENT DATA st =
     (if \<not> py_eq EVENT (JStr name) then (Proceed, st)
      else
        (let U = fst st; self = snd st in
         attempt (d_to_channel M DATA) st (\<lambda>channel.
         let s1 = self\<lparr>channels := (channels self)(id_of M channel \<mapsto> channel)\<rparr>
         in (Proceed, (U, dispatch fired [AEntity channel] s1)))))"

definition on_channel_delete :: "json \<Rightarrow> json \<Rightarrow> 'e body \<Rightarrow> flow \<times> 'e body" where
  "on_channel_delete EVENT DATA st =
     (if \<not> py_eq EVENT (JStr ''CHANNEL_DELETE'') then (Proceed, st)
      else
        (let U = fst st; self = snd st in
         attempt (getitem DATA ''id'') st (\<lambda>cid.
         attempt (py_int cid) st (\<lambda>k.
         case channels self (KInt k) of
           None \<Rightarrow> (Throw (raise KeyError), st)
         | Some channel \<Rightarrow>
             (Proceed, (U, dispatch ''channel_delete'' [AEntity channel]
                             (self\<lparr>channels := (channels self)(KInt k := None)\<rparr>)))))))"

text \<open>Lines 36 to 109 in their order.\<close>

definition on_event ::
    "'e models \<Rightarrow> json \<Rightarrow> json \<Rightarrow> json \<Rightarrow> 'e body \<Rightarrow> flow \<times> 'e body" where
  "on_event M EVENT OPERATION DATA =
     seq (on_invalid_session OPERATION)
    (seq (on_heartbeat_ack OPERATION)
    (seq (on_ready M EVENT DATA)
    (seq (on_message_create M EVENT DATA)
    (seq (on_guild_create M EVENT DATA)
    (seq (on_guild_delete M EVENT DATA)
    (seq (on_channel_upsert M ''CHANNEL_CREATE'' ''channel_create'' EVENT DATA)
    (seq (on_channel_upsert M ''CHANNEL_UPDATE'' ''channel_update'' EVENT DATA)
         (on_channel_delete EVENT DATA))))))))"

text \<open>
  The body of the loop for one message (lines 14 to 109): \<open>UNAVAILABLE\<close> is a new empty
  list in every iteration (line 34) and is dropped at its end.
\<close>

definition handle_message :: "'e models \<Rightarrow> WSMessage \<Rightarrow> 'e client \<Rightarrow> flow \<times> 'e client" where
  "handle_message M message self =
     (let s0 = dispatch ''socket_recieve'' [AMessage message] self in
      attempt (decoded M message) s0 (\<lambda>r.
      case r of
        None \<Rightarrow> (Continue, s0)
      | Some d \<Rightarrow>
          attempt (envelope d) s0 (\<lambda>(EVENT, OPERATION, DATA, SEQ).
          let s1 = s0\<lparr>SEQUENCE := Some SEQ\<rparr>;
              UNAVAILABLE = [];
              r = on_event M EVENT OPERATION DATA (UNAVAILABLE, s1)
          in (fst r, snd (snd r)))))"

text \<open>
  \<^verbatim>\<open>async for message in ws\<close>: the messages in their order of arrival, until one raises.
  The result is the exception that left the loop, if any, and the client.
\<close>

fun handle_websocket ::
    "'e models \<Rightarrow> 'e client \<Rightarrow> WSMessage list \<Rightarrow> exc option \<times> 'e client" where
  "handle_websocket M self [] = (None, self)"
| "handle_websocket M self (message # rest) =
     (case handle_message M message self of
        (Throw e, self') \<Rightarrow> (Some e, self')
      | (flw, self') \<Rightarrow> handle_websocket M self' rest)"

subsection \<open>A client and collaborators to run the handler on\<close>

text \<open>A client that has dispatched nothing and caches nothing.\<close>

definition client_init :: "'e client" where
  "client_init =
     \<lparr> dispatched = [], client_session_id = None, client_gateway_version = None, user = None,
       users = Map.empty, messages = Map.empty, guilds = Map.empty, channels = Map.empty,
       SEQUENCE = None \<rparr>"

text \<open>The names of the events dispatched, in order.\<close>

definition names :: "'e client \<Rightarrow> string list" where
  "names self = map fst (dispatched self)"

text \<open>
  A decoder given by a table from frame texts to envelopes, and models whose entities
  are the raw payloads. Texts outside the table do not decode.
\<close>

definition frame :: "string \<Rightarrow> int \<Rightarrow> json \<Rightarrow> json" where
  "frame t opc d = JObj [(''t'', JStr t), (''op'', JInt opc), (''d'', d), (''s'', JInt 1)]"

definition wire :: "(string \<times> json) list" where
  "wire =
     [(''{READY guilds=[1]}'',
         frame ''READY'' 0
           (JObj [(''session_id'', JStr ''abc''), (''v'', JInt 9),
                  (''user'', JObj [(''id'', JStr ''7'')]),
                  (''guilds'',
                     JList [JObj [(''id'', JStr ''1''), (''unavailable'', JBool True)]])])),
      (''{GUILD_CREATE id=1}'', frame ''GUILD_CREATE'' 0 (JObj [(''id'', JStr ''1'')])),
      (''{GUILD_CREATE id=123}'', frame ''GUILD_CREATE'' 0 (JObj [(''id'', JInt 123)])),
      (''{GUILD_DELETE id=123 unavailable}'',
         frame ''GUILD_DELETE'' 0
           (JObj [(''unavailable'', JBool True), (''id'', JStr ''123'')])),
      (''{GUILD_DELETE id=123}'', frame ''GUILD_DELETE'' 0 (JObj [(''id'', JInt 123)])),
      (''{INVALIDSESSION}'',
         JObj [(''t'', JNull), (''op'', JInt 9), (''d'', JBool False), (''s'', JNull)]),
      (''{}'', JObj [])]"

definition toy_id :: "json \<Rightarrow> key" where
  "toy_id e =
     (case getitem e ''id'' of
        Inl x \<Rightarrow> KNone
      | Inr v \<Rightarrow> (case py_int v of Inl x \<Rightarrow> KNone | Inr n \<Rightarrow> KInt n))"

definition toy :: "json models" where
  "toy =
     \<lparr> decompressResponse = (\<lambda>b. Inr b),
       ETF = (\<lambda>s. Inl (raise DecodeError)),
       JSON = (\<lambda>s. case map_of wire s of None \<Rightarrow> Inl (raise DecodeError) | Some d \<Rightarrow> Inr d),
       User = Inr, Message = Inr, Guild = Inr, d_to_channel = Inr,
       id_of = toy_id, message_key = (\<lambda>m. ''0:0''),
       touch_channel = (\<lambda>m ch. Inr ch) \<rparr>"

section \<open>The voice transport\<close>

subsection \<open>The file a player reads\<close>

text \<open>
  A binary file open for reading, as \<open>BasePlayer\<close> uses it: its bytes, the read position
  and whether it was closed. Reading, \<open>tell\<close> and \<open>seek\<close> on a closed file raise
  \<open>ValueError\<close>; \<^verbatim>\<open>read(n)\<close> returns at most \<open>n\<close> bytes (all that is left for a negative \<open>n\<close>)
  and the empty byte string at the end of the file; closing a file again does nothing.
\<close>

type_synonym bytes = "char list"

record BufferedIOBase =
  content :: bytes
  offset :: nat
  fclosed :: bool

definition fp_read :: "int \<Rightarrow> BufferedIOBase \<Rightarrow> exc + (bytes \<times> BufferedIOBase)" where
  "fp_read n f =
     (if fclosed f then Inl (raise ValueError)
      else (let rest = drop (offset f) (content f);
                got = (if n < 0 then rest else take (nat n) rest)
            in Inr (got, f\<lparr>offset := offset f + length got\<rparr>)))"

definition fp_tell :: "BufferedIOBase \<Rightarrow> exc + nat" where
  "fp_tell f = (if fclosed f then Inl (raise ValueError) else Inr (offset f))"

definition fp_seek :: "nat \<Rightarrow> BufferedIOBase \<Rightarrow> exc + BufferedIOBase" where
  "fp_seek n f = (if fclosed f then Inl (raise ValueError) else Inr (f\<lparr>offset := n\<rparr>))"

definition fp_close :: "BufferedIOBase \<Rightarrow> BufferedIOBase" where
  "fp_close f = f\<lparr>fclosed := True\<rparr>"

subsection \<open>The player\<close>

text \<open>
  What the player asks of its voice connection, in the order it asks:
  \<^verbatim>\<open>send_audio_packet(encoded_bytes, has_header=False, flags=c_flags, sock_flags=flags,
  continued=continued)\<close>, \<^verbatim>\<open>wait_until_ready()\<close> and \<^verbatim>\<open>stop_speaking()\<close>.
\<close>

datatype conn_call =
    SendAudioPacket bytes int int bool
  | WaitUntilReady
  | StopSpeaking

text \<open>
  The collaborators that are not in the sources: the encoder's \<^verbatim>\<open>config.FRAME_SIZE\<close> and
  \<^verbatim>\<open>config.SAMPLING_RATE\<close>, its \<open>encode\<close> (which may raise), and whether a call to the
  connection raises, as a function of the calls made so far (the last one is the call
  being answered).
\<close>

record transport =
  FRAME_SIZE :: int
  SAMPLING_RATE :: int
  encode :: "bytes \<Rightarrow> exc + bytes"
  conn_fails :: "conn_call list \<Rightarrow> exc option"

text \<open>The attributes of \<open>BasePlayer\<close>; \<open>conn_log\<close> records the calls to the connection.\<close>

record player =
  fp :: BufferedIOBase
  pos :: nat
  index :: int
  closed :: bool
  last_pack_err :: "exc option"
  last_send_err :: "exc option"
  conn_log :: "conn_call list"

text \<open>\<^verbatim>\<open>BasePlayer.__init__\<close> on a file object: \<^verbatim>\<open>self.pos = data.tell()\<close>.\<close>

definition BasePlayer_init :: "BufferedIOBase \<Rightarrow> exc + player" where
  "BasePlayer_init f =
     (case fp_tell f of
        Inl e \<Rightarrow> Inl e
      | Inr p \<Rightarrow>
          Inr \<lparr> fp = f, pos = p, index = 0, closed = False, last_pack_err = None,
                last_send_err = None, conn_log = [] \<rparr>)"

definition conn_call :: "transport \<Rightarrow> conn_call \<Rightarrow> player \<Rightarrow> unit outcome \<times> player" where
  "conn_call C c self =
     (let lg = conn_log self @ [c]
      in (case conn_fails C lg of None \<Rightarrow> Returned () | Some e \<Rightarrow> Raised e,
          self\<lparr>conn_log := lg\<rparr>))"

text \<open>
  \<^verbatim>\<open>getFrameDur(x, y)\<close> is \<^verbatim>\<open>((x * 10) // (y // 1000)) / 1000\<close>: the model keeps the integer
  quotient (the result is its thousandth part, a float) and the \<open>ZeroDivisionError\<close>.
\<close>

definition getFrameDur :: "int \<Rightarrow> int \<Rightarrow> exc + int" where
  "getFrameDur x y =
     (if y div 1000 = 0 then Inl (raise ZeroDivisionError)
      else Inr ((x * 10) div (y div 1000)))"

text \<open>\<^verbatim>\<open>__aiter__\<close>.\<close>

definition aiter :: "player \<Rightarrow> unit outcome \<times> player" where
  "aiter self =
     (if closed self then (Raised (raise VoiceError), self) else (Returned (), self))"

text \<open>\<^verbatim>\<open>close\<close>: raises on a closed player, else closes the file and sets \<open>closed\<close>.\<close>

definition close :: "player \<Rightarrow> unit outcome \<times> player" where
  "close self =
     (if closed self then (Raised (raise VoiceError), self)
      else (Returned (), self\<lparr>fp := fp_close (fp self), closed := True\<rparr>))"

text \<open>
  \<^verbatim>\<open>get_next_packet\<close>:
  \<^verbatim>\<open>
  self.index += 1
  data = self.fp.read(self.encoder.config.FRAME_SIZE)
  if data == b"":
      self.close()
      raise EOFError("Reached end of file")
  self.pos = self.fp.tell()
  return data
  \<close>
\<close>

definition get_next_packet :: "transport \<Rightarrow> player \<Rightarrow> bytes outcome \<times> player" where
  "get_next_packet C self =
     (let s1 = self\<lparr>index := index self + 1\<rparr> in
      case fp_read (FRAME_SIZE C) (fp s1) of
        Inl e \<Rightarrow> (Raised e, s1)
      | Inr (dat, f) \<Rightarrow>
          (let s2 = s1\<lparr>fp := f\<rparr> in
           if dat = [] then
             (case close s2 of
                (Raised e, s3) \<Rightarrow> (Raised e, s3)
              | (Returned u, s3) \<Rightarrow> (Raised (raise EOFError), s3))
           else
             (case fp_tell (fp s2) of
                Inl e \<Rightarrow> (Raised e, s2)
              | Inr p \<Rightarrow> (Returned dat, s2\<lparr>pos := p\<rparr>))))"

text \<open>\<^verbatim>\<open>__anext__\<close>: an \<open>EOFError\<close> of \<open>get_next_packet\<close> becomes \<open>StopAsyncIteration\<close>.\<close>

definition anext :: "transport \<Rightarrow> player \<Rightarrow> bytes outcome \<times> player" where
  "anext C self =
     (case get_next_packet C self of
        (Raised e, s) \<Rightarrow>
          if caught_by e EOFError then (Raised (raise StopAsyncIteration), s)
          else (Raised e, s)
      | (Returned dat, s) \<Rightarrow> (Returned dat, s))"

text \<open>\<^verbatim>\<open>cleanup\<close>: \<^verbatim>\<open>self.fp.seek(0)\<close>, then the two errors and \<open>index\<close> are reset.\<close>

definition cleanup :: "player \<Rightarrow> unit outcome \<times> player" where
  "cleanup self =
     (case fp_seek 0 (fp self) of
        Inl e \<Rightarrow> (Raised e, self)
      | Inr f \<Rightarrow>
          (Returned (), self\<lparr>fp := f, last_pack_err := None, last_send_err := None,
                              index := 0\<rparr>))"

text \<open>
  \<^verbatim>\<open>send\<close>: refused on a closed player; else the data is encoded and handed to the
  connection. An \<open>OSError\<close> of the connection closes the player, is kept in
  \<^verbatim>\<open>_last_send_err\<close> and becomes \<^verbatim>\<open>VoiceError(..., closed=True)\<close>.
\<close>

definition send ::
    "transport \<Rightarrow> bytes \<Rightarrow> int \<Rightarrow> int \<Rightarrow> bool \<Rightarrow> player \<Rightarrow> unit outcome \<times> player" where
  "send C dat flags c_flags continued self =
     (if closed self then (Raised (raise VoiceError), self)
      else
        (case encode C dat of
           Inl e \<Rightarrow> (Raised e, self)
         | Inr encoded_bytes \<Rightarrow>
             (case conn_call C (SendAudioPacket encoded_bytes c_flags flags continued) self of
                (Returned u, s) \<Rightarrow> (Returned (), s)
              | (Raised e, s) \<Rightarrow>
                  if caught_by e OSError then
                    (case close s of
                       (Raised e', s') \<Rightarrow> (Raised e', s')
                     | (Returned u, s') \<Rightarrow>
                         (Raised (Exc VoiceError [(''closed'', True)]),
                          s'\<lparr>last_send_err := Some e\<rparr>))
                  else (Raised e, s))))"

text \<open>\<^verbatim>\<open>__aexit__\<close>: \<open>close\<close>, with its \<open>VoiceError\<close> passed over.\<close>

definition aexit :: "player \<Rightarrow> unit outcome \<times> player" where
  "aexit self =
     (case close self of
        (Raised e, s) \<Rightarrow> if caught_by e VoiceError then (Returned (), s) else (Raised e, s)
      | (Returned u, s) \<Rightarrow> (Returned (), s))"

text \<open>
  The loop of \<open>play\<close>,
  \<^verbatim>\<open>
  async for packet in self:
      try:
          await self.send(data=packet, flags=flags, c_flags=c_flags, continued=continued)
          await asyncio.sleep(getFrameDur(len(packet), self.encoder.config.SAMPLING_RATE))
          continued = True
      except VoiceError as err:
          if getattr(err, "closed", False):
              return
          else:
              raise
  await self.conn.stop_speaking()
  \<close>
  Every packet read moves the file's position forward, so the loop ends: the bytes left
  to read are its measure.
\<close>

definition remaining :: "player \<Rightarrow> nat" where
  "remaining self = length (content (fp self)) - offset (fp self)"

lemma anext_Returned:
  "anext C self = (Returned dat, s) \<Longrightarrow> remaining s < remaining self"
  by (auto simp: anext_def get_next_packet_def fp_read_def fp_tell_def close_def
      remaining_def Let_def split: if_splits sum.splits prod.splits outcome.splits)

lemma send_Returned:
  "send C dat fl cf cont s = (Returned u, s') \<Longrightarrow> fp s' = fp s \<and> closed s' = closed s"
  by (auto simp: send_def conn_call_def close_def Let_def
      split: if_splits sum.splits prod.splits outcome.splits option.splits)

function play_loop ::
    "transport \<Rightarrow> int \<Rightarrow> int \<Rightarrow> bool \<Rightarrow> player \<Rightarrow> unit outcome \<times> player" where
  "play_loop C c_flags flags continued self =
     (case anext C self of
        (Raised e, s) \<Rightarrow>
          if caught_by e StopAsyncIteration then conn_call C StopSpeaking s else (Raised e, s)
      | (Returned packet, s) \<Rightarrow>
          (case send C packet flags c_flags continued s of
             (Raised e, s') \<Rightarrow>
               if caught_by e VoiceError
               then (if getattr_exc e ''closed'' then (Returned (), s') else (Raised e, s'))
               else (Raised e, s')
           | (Returned u, s') \<Rightarrow>
               (case getFrameDur (int (length packet)) (SAMPLING_RATE C) of
                  Inl e \<Rightarrow> (Raised e, s')
                | Inr dur \<Rightarrow> play_loop C c_flags flags True s')))"
  by pat_completeness auto
termination
  apply (relation "measure (\<lambda>(C, c_flags, flags, continued, self). remaining self)")
   apply simp
  apply (drule sym [of _ "anext _ _"])
  apply (drule sym [of _ "send _ _ _ _ _ _"])
  apply (auto dest!: anext_Returned send_Returned simp: remaining_def)
  done

text \<open>\<^verbatim>\<open>play\<close>: \<^verbatim>\<open>await self.conn.wait_until_ready()\<close>, \<^verbatim>\<open>__aiter__\<close>, then the loop.\<close>

definition play :: "transport \<Rightarrow> int \<Rightarrow> int \<Rightarrow> player \<Rightarrow> unit outcome \<times> player" where
  "play C c_flags flags self =
     (case conn_call C WaitUntilReady self of
        (Raised e, s) \<Rightarrow> (Raised e, s)
      | (Returned u, s) \<Rightarrow>
          (case aiter s of
             (Raised e, s') \<Rightarrow> (Raised e, s')
           | (Returned u', s') \<Rightarrow> play_loop C c_flags flags False s'))"

subsection \<open>A player's lifetime\<close>

text \<open>
  The methods a caller can invoke on a player, and a lifetime as a list of invocations:
  the caller may go on after an exception, so each call runs on the state the one
  before it left.
\<close>

datatype invocation =
    M_close
  | M_send bytes int int bool
  | M_aiter
  | M_anext
  | M_get_next_packet
  | M_cleanup
  | M_play int int
  | M_aexit

fun raised :: "'a outcome \<Rightarrow> exc option" where
  "raised (Returned x) = None"
| "raised (Raised e) = Some e"

fun invoke :: "transport \<Rightarrow> invocation \<Rightarrow> player \<Rightarrow> exc option \<times> player" where
  "invoke C M_close self = apfst raised (close self)"
| "invoke C (M_send dat flags c_flags continued) self =
     apfst raised (send C dat flags c_flags continued self)"
| "invoke C M_aiter self = apfst raised (aiter self)"
| "invoke C M_anext self = apfst raised (anext C self)"
| "invoke C M_get_next_packet self = apfst raised (get_next_packet C self)"
| "invoke C M_cleanup self = apfst raised (cleanup self)"
| "invoke C (M_play c_flags flags) self = apfst raised (play C c_flags flags self)"
| "invoke C M_aexit self = apfst raised (aexit self)"

definition invoke_all :: "transport \<Rightarrow> invocation list \<Rightarrow> player \<Rightarrow> player" where
  "invoke_all C ms self = foldl (\<lambda>s m. snd (invoke C m s)) self ms"

text \<open>The packets handed to the connection.\<close>

fun is_packet :: "conn_call \<Rightarrow> bool" where
  "is_packet (SendAudioPacket b c f k) = True"
| "is_packet c = False"

definition written :: "player \<Rightarrow> conn_call list" where
  "written self = filter is_packet (conn_log self)"

text \<open>
  A player is consistent when its \<open>closed\<close> flag implies that its file is closed. A new
  player is, and every call keeps it so.
\<close>

definition consistent :: "player \<Rightarrow> bool" where
  "consistent self = (closed self \<longrightarrow> fclosed (fp self))"

text \<open>A five-byte file, an encoder with two-byte frames, and a connection that never raises.\<close>

definition tape :: BufferedIOBase where
  "tape = \<lparr> content = ''abcde'', offset = 0, fclosed = False \<rparr>"

definition studio :: transport where
  "studio = \<lparr> FRAME_SIZE = 2, SAMPLING_RATE = 48000, encode = Inr, conn_fails = (\<lambda>lg. None) \<rparr>"

definition fresh_player :: player where
  "fresh_player =
     \<lparr> fp = tape, pos = 0, index = 0, closed = False, last_pack_err = None,
       last_send_err = None, conn_log = [] \<rparr>"

definition spent_player :: player where
  "spent_player = fresh_player\<lparr>fp := tape\<lparr>offset := 5\<rparr>, pos := 5, index := 3\<rparr>"

section \<open>Sharding\<close>

lemma drop_bit_22_floor: "drop_bit 22 (g::int) = g div 4194304"
  by (simp add: drop_bit_eq_div)

text \<open>
  C1. With a positive number of shards, \<open>contains_guild\<close> returns (it does not raise) and
  its answer is true exactly when \<open>(guild_id >> 22) % num_shards\<close>, the floor of
  \<open>guild_id / 2^22\<close> reduced modulo \<open>num_shards\<close>, equals \<open>shard_id\<close>; hence among the shard
  ids \<open>0 \<le> k < num_shards\<close> exactly one owns a given guild id.
\<close>

theorem contains_guild_partition:
  assumes "0 < num_shards self"
  shows "contains_guild self guild_id
           = Inr ((guild_id div 2 ^ 22) mod num_shards self = shard_id self)
       \<and> (\<exists>!k. 0 \<le> k \<and> k < num_shards self
              \<and> contains_guild (self\<lparr>shard_id := k\<rparr>) guild_id = Inr True)"
proof -
  let ?n = "num_shards self"
  let ?r = "(guild_id div 2 ^ 22) mod ?n"
  have ne: "?n \<noteq> 0" using assms by simp
  have owns: "contains_guild (self\<lparr>shard_id := k\<rparr>) guild_id = Inr (?r = k)" for k
    using ne by (simp add: contains_guild_def drop_bit_eq_div)
  have first: "contains_guild self guild_id = Inr (?r = shard_id self)"
    using ne by (simp add: contains_guild_def drop_bit_eq_div)
  have range: "0 \<le> ?r \<and> ?r < ?n"
    using assms by simp
  have uniq: "\<exists>!k. 0 \<le> k \<and> k < ?n \<and> contains_guild (self\<lparr>shard_id := k\<rparr>) guild_id = Inr True"
  proof (rule ex1I [of _ ?r])
    show "0 \<le> ?r \<and> ?r < ?n \<and> contains_guild (self\<lparr>shard_id := ?r\<rparr>) guild_id = Inr True"
      using range owns by simp
  next
    fix k
    assume "0 \<le> k \<and> k < ?n \<and> contains_guild (self\<lparr>shard_id := k\<rparr>) guild_id = Inr True"
    then show "k = ?r" using owns by simp
  qed
  from first uniq show ?thesis by simp
qed

theorem contains_guild_partition_witness:
  "contains_guild (Shard_init ''wss://gateway'' 1 4 ''t'') 175928847299117063
     = Inr ((175928847299117063 div 2 ^ 22) mod 4 = (1::int))
   \<and> (\<exists>!k. 0 \<le> k \<and> k < 4
          \<and> contains_guild ((Shard_init ''wss://gateway'' 1 4 ''t'')\<lparr>shard_id := k\<rparr>)
               175928847299117063 = Inr True)"
  using contains_guild_partition [of "Shard_init ''wss://gateway'' 1 4 ''t''" 175928847299117063]
  by (simp add: Shard_init_def)

section \<open>Resume and disconnect\<close>

lemma perform_calm:
  "\<forall>tr. fails E tr = None \<Longrightarrow> perform E c s = (None, s\<lparr>trace := trace s @ [c]\<rparr>)"
  by (simp add: perform_def Let_def)

lemma perform_session [simp]:
  "session_id (snd (perform E c s)) = session_id s"
  "sequence (snd (perform E c s)) = sequence s"
  by (simp_all add: perform_def Let_def)

lemma connect_session [simp]:
  "session_id (snd (connect E k s)) = session_id s"
  "sequence (snd (connect E k s)) = sequence s"
  by (simp_all add: connect_def perform_def Let_def split: option.splits)

lemma listening_eq:
  "listening =
     \<lparr> url = ''wss://gateway'', shard_id = 0, num_shards = 1, token = ''tok'',
       handler = Custom_handler any_kwds,
       ws = Some 0, sequence = Some 42, session_id = Some ''abc'', gateway_version = None,
       resuming = False, snd_kwds = Some [],
       keep_alive = Some \<lparr>heartbeat_interval = JInt 41250, ended = False, ka_ws = Some 0\<rparr>,
       task = Some 3,
       trace = [WsConnect ''wss://gateway'' [], WsReceive 0, KeepAliveStart, CreateTask []] \<rparr>"
  by (simp add: listening_def listen_def call_handler_def any_kwds_def receive_hello_def
      connect_def perform_def calm_def Shard_init_def Let_def HELLO_def)

lemma calm_never_fails: "\<forall>tr. fails calm tr = None"
  by (simp add: calm_def)

text \<open>With the default handler \<open>listen\<close> raises, whatever the keyword arguments.\<close>

lemma listen_default_handler:
  "handler self = Default_handler \<Longrightarrow> listen E kwds self = (Raised (raise TypeError), self)"
  by (simp add: listen_def call_handler_def)

text \<open>
  C7, as the claim states it, fails in its last part: \<open>connect\<close> without a resume, on a
  shard whose session has the id \<^verbatim>\<open>"abc"\<close> and the sequence number 42, returns and leaves
  both as they are, not at \<open>None\<close>.
\<close>

theorem connect_keeps_session_counterexample:
  "fst (connect calm [] listening) = Returned ()
   \<and> session_id (snd (connect calm [] listening)) = Some ''abc''
   \<and> sequence (snd (connect calm [] listening)) = Some 42"
  by (simp add: connect_def perform_def calm_def listening_eq Let_def)

text \<open>
  C7, amended. On a shard that has a socket \<open>w\<close>, the connect arguments and a heartbeat
  monitor, and with collaborators that do not raise, \<open>resume(restart=True)\<close> closes \<open>w\<close> with
  code 4000 and opens a new socket with the recorded arguments, goes through the rate
  limiter's block (enter, exceeded?, hold until reset if so, increment, exit), sets
  \<open>resuming\<close> and sends \<^verbatim>\<open>{token, session_id, seq}\<close> under op \<open>RESUME\<close> on the new socket, which
  it returns; \<open>session_id\<close> and \<open>sequence\<close> are what they were. \<open>connect\<close> never assigns
  \<open>session_id\<close> or \<open>sequence\<close>: on any shard, with any collaborators, it leaves both as they
  were, which is \<open>None\<close> on a newly built shard and the session's values on a shard that
  has a session.
\<close>

theorem resume_restart_round_trip:
  assumes "ws self = Some w" and "snd_kwds self = Some kwds" and "keep_alive self = Some ka"
    and "ratelimit_key self = Inr key" and "\<forall>tr. fails E tr = None"
  shows "fst (resume E True self) = Returned (length (trace self) + 1)
       \<and> session_id (snd (resume E True self)) = session_id self
       \<and> sequence (snd (resume E True self)) = sequence self
       \<and> resuming (snd (resume E True self))
       \<and> ws (snd (resume E True self)) = Some (length (trace self) + 1)
       \<and> trace (snd (resume E True self))
           = trace self @ [WsClose w 4000, WsConnect (url self) kwds, RlEnter, RlExceeded key]
             @ (if exceeded E (trace self @ [WsClose w 4000, WsConnect (url self) kwds, RlEnter,
                                             RlExceeded key])
                then [RlHoldUntilReset key] else [])
             @ [RlIncrement key True, RlExit,
                WsSendJson (length (trace self) + 1) (resume_payload self)]
       \<and> session_id (snd (connect E kwds (Shard_init u i n tok))) = None
       \<and> sequence (snd (connect E kwds (Shard_init u i n tok))) = None
       \<and> session_id (snd (connect E' kwds' other)) = session_id other
       \<and> sequence (snd (connect E' kwds' other)) = sequence other"
proof -
  have kept: "session_id (snd (connect E' kwds' other)) = session_id other
            \<and> sequence (snd (connect E' kwds' other)) = sequence other"
    by (simp add: connect_def perform_def Let_def split: option.splits)
  have fresh: "session_id (snd (connect E kwds (Shard_init u i n tok))) = None
             \<and> sequence (snd (connect E kwds (Shard_init u i n tok))) = None"
    by (simp add: connect_def perform_def Let_def Shard_init_def split: option.splits)
  have resumed: "fst (resume E True self) = Returned (length (trace self) + 1)
       \<and> session_id (snd (resume E True self)) = session_id self
       \<and> sequence (snd (resume E True self)) = sequence self
       \<and> resuming (snd (resume E True self))
       \<and> ws (snd (resume E True self)) = Some (length (trace self) + 1)
       \<and> trace (snd (resume E True self))
           = trace self @ [WsClose w 4000, WsConnect (url self) kwds, RlEnter, RlExceeded key]
             @ (if exceeded E (trace self @ [WsClose w 4000, WsConnect (url self) kwds, RlEnter,
                                             RlExceeded key])
                then [RlHoldUntilReset key] else [])
             @ [RlIncrement key True, RlExit,
                WsSendJson (length (trace self) + 1) (resume_payload self)]"
    using assms
    by (simp add: resume_def restart_socket_def ratelimited_def ratelimited_body_def
        connect_def perform_calm Let_def ratelimit_key_def resume_payload_def
        split: if_splits)
  from resumed fresh kept show ?thesis by blast
qed

theorem resume_restart_round_trip_witness:
  "fst (resume calm True listening) = Returned 5
   \<and> session_id (snd (resume calm True listening)) = Some ''abc''
   \<and> sequence (snd (resume calm True listening)) = Some 42
   \<and> resuming (snd (resume calm True listening))
   \<and> ws (snd (resume calm True listening)) = Some 5
   \<and> trace (snd (resume calm True listening))
       = [WsConnect ''wss://gateway'' [], WsReceive 0, KeepAliveStart, CreateTask [],
          WsClose 0 4000, WsConnect ''wss://gateway'' [], RlEnter, RlExceeded 0,
          RlIncrement 0 True, RlExit,
          WsSendJson 5 (JObj [(''op'', JInt 6),
                              (''d'', JObj [(''token'', JStr ''tok''),
                                            (''session_id'', JStr ''abc''),
                                            (''seq'', JInt 42)])])]
   \<and> session_id (snd (connect calm [] (Shard_init ''wss://gateway'' 0 1 ''tok''))) = None
   \<and> sequence (snd (connect calm [] (Shard_init ''wss://gateway'' 0 1 ''tok''))) = None
   \<and> session_id (snd (connect calm [] listening)) = Some ''abc''
   \<and> sequence (snd (connect calm [] listening)) = Some 42"
proof -
  have k: "ratelimit_key listening = Inr 0"
    by (simp add: listening_eq ratelimit_key_def)
  show ?thesis
    using resume_restart_round_trip [of listening 0 "[]"
        "\<lparr>heartbeat_interval = JInt 41250, ended = False, ka_ws = Some 0\<rparr>" 0 calm
        "''wss://gateway''" 0 1 "''tok''" calm "[]" listening, OF _ _ _ k calm_never_fails]
    by (simp add: listening_eq resume_payload_def RESUME_def) (simp add: calm_def)
qed

text \<open>
  C8, as the claim states it, fails: \<open>disconnect\<close> on a newly built shard, and on a shard
  that has connected but not received the hello packet, raises \<open>AttributeError\<close>.
\<close>

theorem disconnect_fresh_counterexample:
  "fst (disconnect calm (Shard_init ''wss://gateway'' 0 1 ''tok''))
     = Raised (Exc AttributeError [])
   \<and> fst (disconnect calm (snd (connect calm [] (Shard_init ''wss://gateway'' 0 1 ''tok''))))
       = Raised (Exc AttributeError [])"
  by (simp add: disconnect_def connect_def perform_def calm_def Shard_init_def Let_def)

text \<open>
  C8, amended. With collaborators that do not raise: on a shard that has a heartbeat
  monitor and a socket (\<open>receive_hello\<close> and \<open>connect\<close> have run), \<open>disconnect\<close> returns,
  having set the monitor's \<^verbatim>\<open>_ended\<close>, closed the socket with code 4000 and cancelled the
  listen task if \<open>listen\<close> made one; a second call returns as well, and but for the repeated
  close and cancel calls it leaves the shard as the first call left it. Without a monitor
  or without a socket \<open>disconnect\<close> raises \<open>AttributeError\<close>.
\<close>

theorem disconnect_after_hello:
  assumes "\<forall>tr. fails E tr = None"
  shows "(keep_alive self = None \<or> ws self = None
            \<longrightarrow> fst (disconnect E self) = Raised (raise AttributeError))
       \<and> (\<forall>ka w. keep_alive self = Some ka \<and> ws self = Some w \<longrightarrow>
            disconnect E self
              = (Returned (),
                 self\<lparr>keep_alive := Some (ka\<lparr>ended := True\<rparr>),
                      trace := trace self @ WsClose w 4000
                                 # (case task self of None \<Rightarrow> []
                                    | Some t \<Rightarrow> [TaskCancel t ''Disconnect called''])\<rparr>)
            \<and> fst (disconnect E (snd (disconnect E self))) = Returned ()
            \<and> (snd (disconnect E (snd (disconnect E self))))\<lparr>trace := []\<rparr>
                = (snd (disconnect E self))\<lparr>trace := []\<rparr>)"
  using assms
  by (auto simp: disconnect_def perform_calm Let_def split: option.splits)

theorem disconnect_after_hello_witness:
  "fst (disconnect calm ((Shard_init ''wss://gateway'' 0 1 ''tok'')\<lparr>ws := Some 0\<rparr>))
     = Raised (raise AttributeError)
   \<and> disconnect calm listening
       = (Returned (),
          listening\<lparr>keep_alive := Some \<lparr>heartbeat_interval = JInt 41250, ended = True,
                                        ka_ws = Some 0\<rparr>,
                    trace := [WsConnect ''wss://gateway'' [], WsReceive 0, KeepAliveStart,
                              CreateTask [], WsClose 0 4000,
                              TaskCancel 3 ''Disconnect called'']\<rparr>)
   \<and> fst (disconnect calm (snd (disconnect calm listening))) = Returned ()
   \<and> (snd (disconnect calm (snd (disconnect calm listening))))\<lparr>trace := []\<rparr>
       = (snd (disconnect calm listening))\<lparr>trace := []\<rparr>"
proof -
  let ?ka = "\<lparr>heartbeat_interval = JInt 41250, ended = False, ka_ws = Some 0\<rparr>"
  have ka: "keep_alive listening = Some ?ka \<and> ws listening = Some 0"
    by (simp add: listening_eq)
  have none: "keep_alive ((Shard_init ''wss://gateway'' 0 1 ''tok'')\<lparr>ws := Some 0\<rparr>) = None"
    by (simp add: Shard_init_def)
  from disconnect_after_hello [OF calm_never_fails,
      of "(Shard_init ''wss://gateway'' 0 1 ''tok'')\<lparr>ws := Some 0\<rparr>"] none
  have a: "fst (disconnect calm ((Shard_init ''wss://gateway'' 0 1 ''tok'')\<lparr>ws := Some 0\<rparr>))
             = Raised (raise AttributeError)"
    by blast
  from disconnect_after_hello [OF calm_never_fails, of listening] ka
  have b: "disconnect calm listening
             = (Returned (),
                listening\<lparr>keep_alive := Some (?ka\<lparr>ended := True\<rparr>),
                          trace := trace listening @ WsClose 0 4000
                                     # (case task listening of None \<Rightarrow> []
                                        | Some t \<Rightarrow> [TaskCancel t ''Disconnect called''])\<rparr>)
           \<and> fst (disconnect calm (snd (disconnect calm listening))) = Returned ()
           \<and> (snd (disconnect calm (snd (disconnect calm listening))))\<lparr>trace := []\<rparr>
               = (snd (disconnect calm listening))\<lparr>trace := []\<rparr>"
    by blast
  have c: "trace listening @ WsClose 0 4000
             # (case task listening of None \<Rightarrow> []
                | Some t \<Rightarrow> [TaskCancel t ''Disconnect called''])
           = [WsConnect ''wss://gateway'' [], WsReceive 0, KeepAliveStart, CreateTask [],
              WsClose 0 4000, TaskCancel 3 ''Disconnect called'']"
    by (simp add: listening_eq)
  from b c have b1: "disconnect calm listening
             = (Returned (),
                listening\<lparr>keep_alive := Some \<lparr>heartbeat_interval = JInt 41250, ended = True,
                                              ka_ws = Some 0\<rparr>,
                          trace := [WsConnect ''wss://gateway'' [], WsReceive 0, KeepAliveStart,
                                    CreateTask [], WsClose 0 4000,
                                    TaskCancel 3 ''Disconnect called'']\<rparr>)"
    by (simp del: fst_conv snd_conv)
  from b have b2: "fst (disconnect calm (snd (disconnect calm listening))) = Returned ()"
    by blast
  from b have b3: "(snd (disconnect calm (snd (disconnect calm listening))))\<lparr>trace := []\<rparr>
                     = (snd (disconnect calm listening))\<lparr>trace := []\<rparr>"
    by blast
  from a b1 b2 b3 show ?thesis by blast
qed

lemma ratelimited_body_session [simp]:
  "session_id (snd (ratelimited_body E s)) = session_id s"
  "sequence (snd (ratelimited_body E s)) = sequence s"
  by (simp_all add: ratelimited_body_def perform_def Let_def split: sum.splits option.splits)

lemma ratelimited_session [simp]:
  "session_id (snd (ratelimited E s)) = session_id s"
  "sequence (snd (ratelimited E s)) = sequence s"
proof -
  obtain r s1 where a: "perform E RlEnter s = (r, s1)" by (cases "perform E RlEnter s")
  obtain r' s2 where b: "ratelimited_body E s1 = (r', s2)" by (cases "ratelimited_body E s1")
  from a have a': "session_id s1 = session_id s" "sequence s1 = sequence s"
    using perform_session [of E RlEnter s] by simp_all
  from b have b': "session_id s2 = session_id s1" "sequence s2 = sequence s1"
    using ratelimited_body_session [of E s1] by simp_all
  show "session_id (snd (ratelimited E s)) = session_id s"
    using a b a' b' by (simp add: ratelimited_def split: option.splits)
  show "sequence (snd (ratelimited E s)) = sequence s"
    using a b a' b' by (simp add: ratelimited_def split: option.splits)
qed

lemma restart_socket_session [simp]:
  "session_id (snd (restart_socket E s)) = session_id s"
  "sequence (snd (restart_socket E s)) = sequence s"
  by (simp_all add: restart_socket_def connect_def perform_def Let_def split: option.splits)

text \<open>
  Whatever the collaborators do and whether or not it restarts, \<open>resume\<close> leaves
  \<open>session_id\<close> and \<open>sequence\<close> as they were.
\<close>

lemma resume_keeps_session:
  "session_id (snd (resume E restart self)) = session_id self
   \<and> sequence (snd (resume E restart self)) = sequence self"
proof -
  let ?p = "if restart then restart_socket E self else (None, self)"
  obtain r s where a: "?p = (r, s)" by (cases ?p)
  have a': "session_id s = session_id self \<and> sequence s = sequence self"
  proof (cases restart)
    case True
    with a have "s = snd (restart_socket E self)" by simp
    then show ?thesis by simp
  next
    case False
    with a show ?thesis by simp
  qed
  obtain r' s' where b: "ratelimited E s = (r', s')" by (cases "ratelimited E s")
  have b': "session_id s' = session_id s \<and> sequence s' = sequence s"
    using b ratelimited_session [of E s] by simp
  show ?thesis
    using a b a' b' unfolding resume_def
    by (simp add: perform_def Let_def split: option.splits)
qed

text \<open>\<open>send_identity\<close> goes through the same rate limiter block before it sends.\<close>

lemma send_identity_trace:
  assumes "ws self = Some w" and "ratelimit_key self = Inr key" and "\<forall>tr. fails E tr = None"
  shows "trace (snd (send_identity E tok intents presence self))
           = trace self @ [RlEnter, RlExceeded key]
             @ (if exceeded E (trace self @ [RlEnter, RlExceeded key])
                then [RlHoldUntilReset key] else [])
             @ [RlIncrement key True, RlExit,
                WsSendStr w (identify_payload E self tok intents presence)]"
  using assms
  by (simp add: send_identity_def ratelimited_def ratelimited_body_def perform_calm Let_def
      ratelimit_key_def identify_payload_def split: if_splits)

section \<open>The receive loop\<close>

lemmas handler_defs = handle_message_def on_event_def seq_def attempt_def decoded_def
  decode_text_def startswith_brace_def envelope_def on_invalid_session_def
  on_heartbeat_ack_def on_ready_def on_message_create_def on_guild_create_def
  on_guild_delete_def on_channel_upsert_def on_channel_delete_def dispatch_def
  INVALIDSESSION_def HEARTBEATACK_def Let_def

lemmas toy_defs = toy_def wire_def frame_def client_init_def names_def toy_id_def
  int_of_string_def strip_def is_space_def is_digit_def

lemma handle_websocket_append:
  "handle_websocket M self (pre @ rest) =
     (case handle_websocket M self pre of
        (Some e, s) \<Rightarrow> (Some e, s)
      | (None, s) \<Rightarrow> handle_websocket M s rest)"
  by (induction pre arbitrary: self) (auto split: prod.splits flow.splits)

lemma handle_websocket_after:
  "handle_websocket M self pre = (None, s1) \<Longrightarrow>
   handle_websocket M self (pre @ m # rest) =
     (case handle_message M m s1 of
        (Throw e, s') \<Rightarrow> (Some e, s')
      | (flw, s') \<Rightarrow> handle_websocket M s' rest)"
  by (simp add: handle_websocket_append)

lemma handle_message_decode_error:
  "decoded M m = Inl e \<Longrightarrow>
   handle_message M m s = (Throw e, dispatch ''socket_recieve'' [AMessage m] s)"
  by (simp add: handle_message_def attempt_def Let_def)

lemma handle_message_empty:
  "decoded M m = Inr None \<Longrightarrow>
   handle_message M m s = (Continue, dispatch ''socket_recieve'' [AMessage m] s)"
  by (simp add: handle_message_def attempt_def Let_def)

lemma handle_message_envelope_error:
  "decoded M m = Inr (Some d) \<Longrightarrow> envelope d = Inl e \<Longrightarrow>
   handle_message M m s = (Throw e, dispatch ''socket_recieve'' [AMessage m] s)"
  by (simp add: handle_message_def attempt_def Let_def)

lemma handle_message_invalid_session:
  "decoded M m = Inr (Some d) \<Longrightarrow> envelope d = Inr (EVENT, JInt INVALIDSESSION, DATA, SEQ) \<Longrightarrow>
   handle_message M m s =
     (Throw (raise GatewayConnectionRefused),
      (dispatch ''socket_recieve'' [AMessage m] s)\<lparr>SEQUENCE := Some SEQ\<rparr>)"
  by (simp add: handle_message_def attempt_def Let_def on_event_def seq_def
      on_invalid_session_def)

text \<open>
  Whatever the client's state, a \<open>GUILD_CREATE\<close> frame whose guild hydrates fires
  \<^verbatim>\<open>"guild_create"\<close>: \<open>UNAVAILABLE\<close> is empty when line 76 reads it.
\<close>

lemma handle_message_guild_create:
  assumes "decoded M m = Inr (Some d)"
    and "envelope d = Inr (JStr ''GUILD_CREATE'', JInt 0, DATA, SEQ)"
    and "Guild M DATA = Inr g" and "getitem DATA ''id'' = Inr i" and "py_int i = Inr k"
  shows "handle_message M m s =
     (Proceed, (dispatch ''guild_create'' [AEntity g]
                 ((dispatch ''socket_recieve'' [AMessage m] s)\<lparr>SEQUENCE := Some SEQ\<rparr>))
                \<lparr>guilds := (guilds s)(KInt k \<mapsto> g)\<rparr>)"
  using assms by (simp add: handler_defs)

text \<open>
  Whatever the client's state, a \<open>GUILD_DELETE\<close> frame with an \<^verbatim>\<open>"unavailable"\<close> marker
  raises: if the guild hydrates and the payload has an id, line 87 removes the id from
  the empty \<open>UNAVAILABLE\<close>, a \<open>ValueError\<close>. Nothing is dispatched or cached.
\<close>

lemma handle_message_guild_outage:
  assumes "decoded M m = Inr (Some d)"
    and "envelope d = Inr (JStr ''GUILD_DELETE'', JInt 0, DATA, SEQ)"
    and "get_default DATA ''unavailable'' JNull = Inr marker" and "marker \<noteq> JNull"
  shows "handle_message M m s =
     (Throw (case Guild M DATA of
               Inl e \<Rightarrow> e
             | Inr g \<Rightarrow> (case getitem DATA ''id'' of Inl e \<Rightarrow> e
                          | Inr i \<Rightarrow> raise ValueError)),
      (dispatch ''socket_recieve'' [AMessage m] s)\<lparr>SEQUENCE := Some SEQ\<rparr>)"
  using assms by (simp add: handler_defs split: sum.splits)

lemma handle_message_guild_remove:
  assumes "decoded M m = Inr (Some d)"
    and "envelope d = Inr (JStr ''GUILD_DELETE'', JInt 0, DATA, SEQ)"
    and "get_default DATA ''unavailable'' JNull = Inr JNull"
    and "getitem DATA ''id'' = Inr (JInt n)"
  shows "handle_message M m s =
     (case guilds s (KInt n) of
        None \<Rightarrow>
          (Throw (raise KeyError),
           (dispatch ''socket_recieve'' [AMessage m] s)\<lparr>SEQUENCE := Some SEQ\<rparr>)
      | Some guild \<Rightarrow>
          (Proceed,
           dispatch ''guild_remove'' [AEntity guild]
             ((dispatch ''socket_recieve'' [AMessage m] s)
                \<lparr>SEQUENCE := Some SEQ, guilds := (guilds s)(KInt n := None)\<rparr>)))"
  using assms by (simp add: handler_defs split: option.splits)

text \<open>
  C2. The code does not keep the ids of \<open>READY\<close> across frames. After a \<open>READY\<close> frame that
  lists guild \<^verbatim>\<open>"1"\<close>, the \<open>GUILD_CREATE\<close> frame of guild \<^verbatim>\<open>"1"\<close> fires \<^verbatim>\<open>"guild_create"\<close>, not
  \<^verbatim>\<open>"guild_recv"\<close>; the guild is cached under the integer 1.
\<close>

theorem guild_create_after_ready:
  "fst (handle_websocket toy client_init
          [WSMessage (Text ''{READY guilds=[1]}''), WSMessage (Text ''{GUILD_CREATE id=1}'')])
     = None
   \<and> names (snd (handle_websocket toy client_init
          [WSMessage (Text ''{READY guilds=[1]}''), WSMessage (Text ''{GUILD_CREATE id=1}'')]))
       = [''socket_recieve'', ''ready'', ''socket_recieve'', ''guild_create'']
   \<and> guilds (snd (handle_websocket toy client_init
          [WSMessage (Text ''{READY guilds=[1]}''), WSMessage (Text ''{GUILD_CREATE id=1}'')]))
        (KInt 1)
       = Some (JObj [(''id'', JStr ''1'')])"
  by (simp add: handler_defs toy_defs)

text \<open>
  C3. The \<open>GUILD_DELETE\<close> frame \<^verbatim>\<open>{"unavailable": true, "id": "123"}\<close> leaves the loop with a
  \<open>ValueError\<close>: \<^verbatim>\<open>"guild_outage"\<close> is not fired, nothing is cached, and the frame after it is
  not read.
\<close>

theorem guild_outage_raises:
  "fst (handle_websocket toy client_init
          [WSMessage (Text ''{GUILD_DELETE id=123 unavailable}''),
           WSMessage (Text ''{GUILD_CREATE id=1}'')])
     = Some (raise ValueError)
   \<and> names (snd (handle_websocket toy client_init
          [WSMessage (Text ''{GUILD_DELETE id=123 unavailable}''),
           WSMessage (Text ''{GUILD_CREATE id=1}'')]))
       = [''socket_recieve'']
   \<and> guilds (snd (handle_websocket toy client_init
          [WSMessage (Text ''{GUILD_DELETE id=123 unavailable}''),
           WSMessage (Text ''{GUILD_CREATE id=1}'')])) (KInt 123)
       = None"
  by (simp add: handler_defs toy_defs)

text \<open>
  C4, as the claim states it, fails: a \<open>GUILD_DELETE\<close> frame for the id 123, which was never
  cached, leaves the loop with a \<open>KeyError\<close>, and the frame after it is not read.
\<close>

theorem guild_remove_miss_counterexample:
  "fst (handle_websocket toy client_init
          [WSMessage (Text ''{GUILD_DELETE id=123}''), WSMessage (Text ''{GUILD_CREATE id=1}'')])
     = Some (raise KeyError)
   \<and> names (snd (handle_websocket toy client_init
          [WSMessage (Text ''{GUILD_DELETE id=123}''), WSMessage (Text ''{GUILD_CREATE id=1}'')]))
       = [''socket_recieve'']"
  by (simp add: handler_defs toy_defs)

text \<open>
  C4, amended. For a \<open>GUILD_DELETE\<close> frame (op 0) without an \<^verbatim>\<open>"unavailable"\<close> marker whose
  payload carries the integer id \<open>n\<close>, read after frames that raised nothing: if the guild
  cache has an entry under \<open>n\<close>, the entry is removed, \<^verbatim>\<open>"guild_remove"\<close> is fired with the
  removed guild and the loop goes on to the next frame; if it has none, the \<open>KeyError\<close> of
  the lookup leaves the handler, and no later frame is read.
\<close>

theorem guild_remove_or_key_error:
  assumes "handle_websocket M self pre = (None, s1)"
    and "decoded M m = Inr (Some d)"
    and "envelope d = Inr (JStr ''GUILD_DELETE'', JInt 0, DATA, SEQ)"
    and "get_default DATA ''unavailable'' JNull = Inr JNull"
    and "getitem DATA ''id'' = Inr (JInt n)"
  shows "handle_websocket M self (pre @ m # rest) =
     (case guilds s1 (KInt n) of
        None \<Rightarrow>
          (Some (raise KeyError),
           (dispatch ''socket_recieve'' [AMessage m] s1)\<lparr>SEQUENCE := Some SEQ\<rparr>)
      | Some guild \<Rightarrow>
          handle_websocket M
            (dispatch ''guild_remove'' [AEntity guild]
               ((dispatch ''socket_recieve'' [AMessage m] s1)
                  \<lparr>SEQUENCE := Some SEQ, guilds := (guilds s1)(KInt n := None)\<rparr>))
            rest)"
  using assms
  by (simp add: handle_websocket_after handle_message_guild_remove split: option.splits)

theorem guild_remove_or_key_error_witness:
  "fst (handle_websocket toy client_init
          ([WSMessage (Text ''{GUILD_CREATE id=123}'')]
           @ WSMessage (Text ''{GUILD_DELETE id=123}'') # [WSMessage (Text ''{GUILD_CREATE id=1}'')]))
     = None
   \<and> names (snd (handle_websocket toy client_init
          ([WSMessage (Text ''{GUILD_CREATE id=123}'')]
           @ WSMessage (Text ''{GUILD_DELETE id=123}'') # [WSMessage (Text ''{GUILD_CREATE id=1}'')])))
       = [''socket_recieve'', ''guild_create'', ''socket_recieve'', ''guild_remove'',
          ''socket_recieve'', ''guild_create'']
   \<and> guilds (snd (handle_websocket toy client_init
          ([WSMessage (Text ''{GUILD_CREATE id=123}'')]
           @ WSMessage (Text ''{GUILD_DELETE id=123}'') # [WSMessage (Text ''{GUILD_CREATE id=1}'')])))
        (KInt 123) = None
   \<and> handle_websocket toy client_init
          ([] @ WSMessage (Text ''{GUILD_DELETE id=123}'') # [WSMessage (Text ''{GUILD_CREATE id=1}'')])
       = (Some (raise KeyError),
          (dispatch ''socket_recieve'' [AMessage (WSMessage (Text ''{GUILD_DELETE id=123}''))]
             client_init)\<lparr>SEQUENCE := Some (JInt 1)\<rparr>)"
proof -
  let ?c = "WSMessage (Text ''{GUILD_CREATE id=123}'')"
  let ?m = "WSMessage (Text ''{GUILD_DELETE id=123}'')"
  let ?r = "[WSMessage (Text ''{GUILD_CREATE id=1}'')]"
  let ?d = "frame ''GUILD_DELETE'' 0 (JObj [(''id'', JInt 123)])"
  let ?DATA = "JObj [(''id'', JInt 123)]"
  let ?s1 = "snd (handle_websocket toy (client_init :: json client) [?c])"
  have pre: "handle_websocket toy client_init [?c] = (None, ?s1)"
    by (simp add: handler_defs toy_defs)
  have pre0: "handle_websocket toy (client_init :: json client) [] = (None, client_init)"
    by simp
  have dec: "decoded toy ?m = Inr (Some ?d)"
    by (simp add: decoded_def decode_text_def startswith_brace_def toy_def wire_def)
  have env: "envelope ?d = Inr (JStr ''GUILD_DELETE'', JInt 0, ?DATA, JInt 1)"
    by (simp add: envelope_def frame_def)
  have mk: "get_default ?DATA ''unavailable'' JNull = Inr JNull"
    by simp
  have gid: "getitem ?DATA ''id'' = Inr (JInt 123)"
    by simp
  have hit: "guilds ?s1 (KInt 123) = Some ?DATA"
    by (simp add: handler_defs toy_defs)
  have miss: "guilds (client_init :: json client) (KInt 123) = None"
    by (simp add: client_init_def)
  note a = guild_remove_or_key_error [OF pre dec env mk gid, of ?r]
  note b = guild_remove_or_key_error [OF pre0 dec env mk gid, of ?r]
  have b': "handle_websocket toy client_init ([] @ ?m # ?r)
       = (Some (raise KeyError),
          (dispatch ''socket_recieve'' [AMessage ?m] client_init)\<lparr>SEQUENCE := Some (JInt 1)\<rparr>)"
    using b miss by simp
  have a': "handle_websocket toy client_init ([?c] @ ?m # ?r)
       = handle_websocket toy
            (dispatch ''guild_remove'' [AEntity ?DATA]
               ((dispatch ''socket_recieve'' [AMessage ?m] ?s1)
                  \<lparr>SEQUENCE := Some (JInt 1), guilds := (guilds ?s1)(KInt 123 := None)\<rparr>)) ?r"
    using a hit by simp
  have a1: "fst (handle_websocket toy client_init ([?c] @ ?m # ?r)) = None"
    unfolding a' by (simp add: handler_defs toy_defs)
  have a2: "names (snd (handle_websocket toy client_init ([?c] @ ?m # ?r)))
       = [''socket_recieve'', ''guild_create'', ''socket_recieve'', ''guild_remove'',
          ''socket_recieve'', ''guild_create'']"
    unfolding a' by (simp add: handler_defs toy_defs)
  have a3: "guilds (snd (handle_websocket toy client_init ([?c] @ ?m # ?r))) (KInt 123) = None"
    unfolding a' by (simp add: handler_defs toy_defs)
  from a1 a2 a3 b' show ?thesis by blast
qed

text \<open>
  C5, as the claim states it, fails: a frame that does not decode leaves the loop with
  the decoder's exception, and the frame after it is not read.
\<close>

theorem decode_error_counterexample:
  "fst (handle_websocket toy client_init
          [WSMessage (Text ''{garbage''), WSMessage (Text ''{GUILD_CREATE id=1}'')])
     = Some (raise DecodeError)
   \<and> names (snd (handle_websocket toy client_init
          [WSMessage (Text ''{garbage''), WSMessage (Text ''{GUILD_CREATE id=1}'')]))
       = [''socket_recieve'']"
  by (simp add: handler_defs toy_defs)

text \<open>
  C5, amended. After frames that raised nothing, a frame on which decompression or
  decoding raises, or whose decoded value lacks one of the keys \<^verbatim>\<open>t\<close>, \<^verbatim>\<open>op\<close>, \<^verbatim>\<open>d\<close>, \<^verbatim>\<open>s\<close>,
  ends the receive loop: \<^verbatim>\<open>"socket_recieve"\<close> has been dispatched for it, its exception
  leaves \<open>handle_websocket\<close>, and no later frame is read. Only a frame with no data is passed
  over: after its \<^verbatim>\<open>"socket_recieve"\<close> the loop goes on to the next frame.
\<close>

theorem decode_error_ends_loop:
  assumes "handle_websocket M self pre = (None, s1)"
  shows "(decoded M m = Inl e \<longrightarrow>
            handle_websocket M self (pre @ m # rest)
              = (Some e, dispatch ''socket_recieve'' [AMessage m] s1))
       \<and> (decoded M m = Inr (Some d) \<and> envelope d = Inl e \<longrightarrow>
            handle_websocket M self (pre @ m # rest)
              = (Some e, dispatch ''socket_recieve'' [AMessage m] s1))
       \<and> (decoded M m = Inr None \<longrightarrow>
            handle_websocket M self (pre @ m # rest)
              = handle_websocket M (dispatch ''socket_recieve'' [AMessage m] s1) rest)"
  using assms
  by (simp add: handle_websocket_after handle_message_decode_error
      handle_message_envelope_error handle_message_empty)

theorem decode_error_ends_loop_witness:
  "handle_websocket toy client_init
      ([] @ WSMessage (Text ''{garbage'') # [WSMessage (Text ''{GUILD_CREATE id=1}'')])
     = (Some (raise DecodeError),
        dispatch ''socket_recieve'' [AMessage (WSMessage (Text ''{garbage''))] client_init)
   \<and> handle_websocket toy client_init
        ([] @ WSMessage (Text ''{}'') # [WSMessage (Text ''{GUILD_CREATE id=1}'')])
       = (Some (raise KeyError),
          dispatch ''socket_recieve'' [AMessage (WSMessage (Text ''{}''))] client_init)
   \<and> handle_websocket toy client_init
        ([] @ WSMessage (Text []) # [WSMessage (Text ''{GUILD_CREATE id=1}'')])
       = handle_websocket toy
           (dispatch ''socket_recieve'' [AMessage (WSMessage (Text []))] client_init)
           [WSMessage (Text ''{GUILD_CREATE id=1}'')]"
proof -
  let ?r = "[WSMessage (Text ''{GUILD_CREATE id=1}'')]"
  have pre0: "handle_websocket toy (client_init :: json client) [] = (None, client_init)"
    by simp
  have bad: "decoded toy (WSMessage (Text ''{garbage'')) = Inl (raise DecodeError)"
    by (simp add: decoded_def decode_text_def startswith_brace_def toy_def wire_def)
  have bare: "decoded toy (WSMessage (Text ''{}'')) = Inr (Some (JObj []))
            \<and> envelope (JObj []) = Inl (raise KeyError)"
    by (simp add: decoded_def decode_text_def startswith_brace_def toy_def wire_def
        envelope_def)
  have empty: "decoded toy (WSMessage (Text [])) = Inr None"
    by (simp add: decoded_def decode_text_def)
  from decode_error_ends_loop [OF pre0, of "WSMessage (Text ''{garbage'')"
      "raise DecodeError" ?r] bad
  have a: "handle_websocket toy client_init ([] @ WSMessage (Text ''{garbage'') # ?r)
     = (Some (raise DecodeError),
        dispatch ''socket_recieve'' [AMessage (WSMessage (Text ''{garbage''))] client_init)"
    by blast
  from decode_error_ends_loop [OF pre0, of "WSMessage (Text ''{}'')" "raise KeyError" ?r
      "JObj []"] bare
  have b: "handle_websocket toy client_init ([] @ WSMessage (Text ''{}'') # ?r)
     = (Some (raise KeyError),
        dispatch ''socket_recieve'' [AMessage (WSMessage (Text ''{}''))] client_init)"
    by blast
  from decode_error_ends_loop [OF pre0, of "WSMessage (Text [])" "raise DecodeError" ?r]
    empty
  have c: "handle_websocket toy client_init ([] @ WSMessage (Text []) # ?r)
       = handle_websocket toy
           (dispatch ''socket_recieve'' [AMessage (WSMessage (Text []))] client_init) ?r"
    by blast
  from a b c show ?thesis by blast
qed

text \<open>
  C6. After frames that raised nothing, a frame whose op code is \<open>INVALIDSESSION\<close> makes
  \<open>handle_websocket\<close> raise \<open>GatewayConnectionRefused\<close> to its caller; later frames are not
  read. An \<^verbatim>\<open>except\<close> clause for a decode error or for \<open>GatewayConnectionClosed\<close> does not catch
  it, nor does a clause for \<open>GatewayConnectionRefused\<close> catch those two.
\<close>

theorem invalid_session_refused:
  assumes "handle_websocket M self pre = (None, s1)"
    and "decoded M m = Inr (Some d)"
    and "envelope d = Inr (EVENT, JInt INVALIDSESSION, DATA, SEQ)"
  shows "handle_websocket M self (pre @ m # rest)
           = (Some (raise GatewayConnectionRefused),
              (dispatch ''socket_recieve'' [AMessage m] s1)\<lparr>SEQUENCE := Some SEQ\<rparr>)
       \<and> \<not> caught_by (raise GatewayConnectionRefused) DecodeError
       \<and> \<not> caught_by (raise GatewayConnectionRefused) GatewayConnectionClosed
       \<and> \<not> caught_by (raise DecodeError) GatewayConnectionRefused
       \<and> \<not> caught_by (raise GatewayConnectionClosed) GatewayConnectionRefused"
  using assms
  by (simp add: handle_websocket_after handle_message_invalid_session caught_by_def
      issubclass_def)

theorem invalid_session_refused_witness:
  "fst (handle_websocket toy client_init
          ([WSMessage (Text ''{READY guilds=[1]}'')]
           @ WSMessage (Text ''{INVALIDSESSION}'') # [WSMessage (Text ''{GUILD_CREATE id=1}'')]))
     = Some (raise GatewayConnectionRefused)
   \<and> names (snd (handle_websocket toy client_init
          ([WSMessage (Text ''{READY guilds=[1]}'')]
           @ WSMessage (Text ''{INVALIDSESSION}'') # [WSMessage (Text ''{GUILD_CREATE id=1}'')])))
       = [''socket_recieve'', ''ready'', ''socket_recieve'']
   \<and> \<not> caught_by (raise GatewayConnectionRefused) DecodeError
   \<and> \<not> caught_by (raise GatewayConnectionRefused) GatewayConnectionClosed
   \<and> \<not> caught_by (raise DecodeError) GatewayConnectionRefused
   \<and> \<not> caught_by (raise GatewayConnectionClosed) GatewayConnectionRefused"
proof -
  let ?c = "WSMessage (Text ''{READY guilds=[1]}'')"
  let ?m = "WSMessage (Text ''{INVALIDSESSION}'')"
  let ?r = "[WSMessage (Text ''{GUILD_CREATE id=1}'')]"
  let ?d = "JObj [(''t'', JNull), (''op'', JInt 9), (''d'', JBool False), (''s'', JNull)]"
  let ?s1 = "snd (handle_websocket toy (client_init :: json client) [?c])"
  have pre: "handle_websocket toy client_init [?c] = (None, ?s1)"
    by (simp add: handler_defs toy_defs)
  have dec: "decoded toy ?m = Inr (Some ?d)"
    by (simp add: decoded_def decode_text_def startswith_brace_def toy_def wire_def)
  have env: "envelope ?d = Inr (JNull, JInt INVALIDSESSION, JBool False, JNull)"
    by (simp add: envelope_def INVALIDSESSION_def)
  note a = invalid_session_refused [OF pre dec env, of ?r]
  have n: "names ?s1 = [''socket_recieve'', ''ready'']"
    by (simp add: handler_defs toy_defs)
  have a1: "fst (handle_websocket toy client_init ([?c] @ ?m # ?r))
              = Some (raise GatewayConnectionRefused)"
    using a by simp
  have a2: "names (snd (handle_websocket toy client_init ([?c] @ ?m # ?r)))
              = [''socket_recieve'', ''ready'', ''socket_recieve'']"
    using a n by (simp add: names_def dispatch_def)
  from a a1 a2 show ?thesis by blast
qed

section \<open>Closing a player\<close>

lemma close_closed: "closed (snd (close self)) \<and> written (snd (close self)) = written self"
  by (simp add: close_def written_def)

lemma invoke_closed:
  assumes "closed self"
  shows "closed (snd (invoke C m self)) \<and> written (snd (invoke C m self)) = written self"
proof (cases m)
  case M_close
  then show ?thesis using assms by (simp add: close_def)
next
  case (M_send dat fl cf k)
  then show ?thesis using assms by (simp add: send_def)
next
  case M_aiter
  then show ?thesis using assms by (simp add: aiter_def)
next
  case M_get_next_packet
  then show ?thesis using assms
    by (auto simp: get_next_packet_def close_def written_def Let_def
        split: sum.splits prod.splits)
next
  case M_anext
  then show ?thesis using assms
    by (auto simp: anext_def get_next_packet_def close_def written_def Let_def
        split: sum.splits prod.splits)
next
  case M_cleanup
  then show ?thesis using assms
    by (auto simp: cleanup_def written_def split: sum.splits)
next
  case (M_play cf fl)
  then show ?thesis using assms
    by (auto simp: play_def conn_call_def aiter_def written_def Let_def split: option.splits)
next
  case M_aexit
  then show ?thesis using assms by (simp add: aexit_def close_def)
qed

lemma invoke_all_closed:
  "closed self \<Longrightarrow>
   closed (invoke_all C ms self) \<and> written (invoke_all C ms self) = written self"
proof (induction ms arbitrary: self)
  case Nil
  then show ?case by (simp add: invoke_all_def)
next
  case (Cons m ms)
  from invoke_closed [OF Cons.prems, of C m]
  have c: "closed (snd (invoke C m self))"
    and w: "written (snd (invoke C m self)) = written self"
    by simp_all
  from Cons.IH [OF c] w show ?case by (simp add: invoke_all_def)
qed

text \<open>
  C9. After \<open>close\<close> has been called on a player (whether it returned or raised), and
  after any further calls \<open>ms\<close>, with any collaborators, the player is closed, the
  connection has been handed no packet beyond those before the \<open>close\<close>, and \<open>send\<close>,
  \<^verbatim>\<open>__aiter__\<close> and \<open>close\<close> raise \<open>VoiceError\<close> and change nothing; \<open>cleanup\<close> leaves the player
  closed.
\<close>

theorem closed_is_final:
  "closed (invoke_all C ms (snd (close self)))
   \<and> written (invoke_all C ms (snd (close self))) = written self
   \<and> send C dat flags c_flags continued (invoke_all C ms (snd (close self)))
       = (Raised (raise VoiceError), invoke_all C ms (snd (close self)))
   \<and> aiter (invoke_all C ms (snd (close self)))
       = (Raised (raise VoiceError), invoke_all C ms (snd (close self)))
   \<and> close (invoke_all C ms (snd (close self)))
       = (Raised (raise VoiceError), invoke_all C ms (snd (close self)))
   \<and> closed (snd (cleanup (invoke_all C ms (snd (close self)))))"
proof -
  let ?s = "invoke_all C ms (snd (close self))"
  have c0: "closed (snd (close self))" and w0: "written (snd (close self)) = written self"
    using close_closed [of self] by simp_all
  from invoke_all_closed [OF c0, of C ms] w0
  have c: "closed ?s" and w: "written ?s = written self" by simp_all
  from c have "send C dat flags c_flags continued ?s = (Raised (raise VoiceError), ?s)"
    by (simp add: send_def)
  moreover from c have "aiter ?s = (Raised (raise VoiceError), ?s)"
    by (simp add: aiter_def)
  moreover from c have "close ?s = (Raised (raise VoiceError), ?s)"
    by (simp add: close_def)
  moreover from c have "closed (snd (cleanup ?s))"
    by (simp add: cleanup_def split: sum.splits)
  ultimately show ?thesis using c w by blast
qed

section \<open>The end of the input\<close>

lemma anext_open:
  assumes "\<not> closed self" and "\<not> fclosed (fp self)"
  shows "(\<exists>dat s. anext C self = (Returned dat, s) \<and> \<not> closed s \<and> \<not> fclosed (fp s))
       \<or> (\<exists>s. anext C self = (Raised (raise StopAsyncIteration), s) \<and> closed s
               \<and> fclosed (fp s))"
  using assms
  by (auto simp: anext_def get_next_packet_def fp_read_def fp_tell_def fp_close_def close_def
      caught_by_def issubclass_def Let_def)

lemma send_open:
  assumes "\<not> closed s" and "\<forall>d. \<exists>b. encode C d = Inr b" and "\<forall>lg. conn_fails C lg = None"
  shows "\<exists>s'. send C dat fl cf k s = (Returned (), s') \<and> fp s' = fp s \<and> closed s' = closed s"
proof -
  from assms(2) obtain b where "encode C dat = Inr b" by blast
  then show ?thesis using assms(1,3) by (simp add: send_def conn_call_def Let_def)
qed

lemma play_loop_returns:
  "\<forall>d. \<exists>b. encode C d = Inr b \<Longrightarrow> \<forall>lg. conn_fails C lg = None \<Longrightarrow>
   SAMPLING_RATE C div 1000 \<noteq> 0 \<Longrightarrow> \<not> closed self \<Longrightarrow> \<not> fclosed (fp self) \<Longrightarrow>
   fst (play_loop C cf fl k self) = Returned () \<and> closed (snd (play_loop C cf fl k self))"
proof (induction C cf fl k self rule: play_loop.induct)
  case (1 C c_flags flags continued self)
  note enc = "1.prems"(1) and ok = "1.prems"(2) and rate = "1.prems"(3)
  from anext_open [OF "1.prems"(4) "1.prems"(5), of C]
  consider (more) dat s where "anext C self = (Returned dat, s)" "\<not> closed s"
      "\<not> fclosed (fp s)"
    | (stop) s where "anext C self = (Raised (raise StopAsyncIteration), s)" "closed s"
    by blast
  then show ?case
  proof cases
    case more
    from send_open [OF more(2) enc ok, of dat flags c_flags continued]
    obtain s' where sent: "send C dat flags c_flags continued s = (Returned (), s')"
      and same_fp: "fp s' = fp s" and same_closed: "closed s' = closed s"
      by blast
    obtain dur where dur: "getFrameDur (int (length dat)) (SAMPLING_RATE C) = Inr dur"
      using rate by (simp add: getFrameDur_def)
    have open': "\<not> closed s'" "\<not> fclosed (fp s')"
      using more(2,3) same_fp same_closed by simp_all
    have ih: "fst (play_loop C c_flags flags True s') = Returned ()
            \<and> closed (snd (play_loop C c_flags flags True s'))"
      by (rule "1.IH" [OF more(1) [symmetric] refl sent [symmetric] refl dur enc ok rate
            open'])
    have "play_loop C c_flags flags continued self = play_loop C c_flags flags True s'"
      by (subst play_loop.simps) (simp add: more(1) sent dur)
    with ih show ?thesis by simp
  next
    case stop
    have "play_loop C c_flags flags continued self = conn_call C StopSpeaking s"
      by (subst play_loop.simps) (simp add: stop(1) caught_by_def issubclass_def)
    then show ?thesis using ok stop(2) by (simp add: conn_call_def Let_def)
  qed
qed

lemma play_returns:
  assumes "\<forall>d. \<exists>b. encode C d = Inr b" and "\<forall>lg. conn_fails C lg = None"
    and "SAMPLING_RATE C div 1000 \<noteq> 0" and "\<not> closed self" and "\<not> fclosed (fp self)"
  shows "fst (play C cf fl self) = Returned () \<and> closed (snd (play C cf fl self))"
proof -
  let ?s = "self\<lparr>conn_log := conn_log self @ [WaitUntilReady]\<rparr>"
  have "play C cf fl self = play_loop C cf fl False ?s"
    using assms(2,4) by (simp add: play_def conn_call_def aiter_def Let_def)
  moreover have "\<not> closed ?s" "\<not> fclosed (fp ?s)" using assms(4,5) by simp_all
  ultimately show ?thesis using play_loop_returns [OF assms(1-3), of ?s cf fl False] by simp
qed

text \<open>A new player is consistent, and the methods keep a player consistent.\<close>

lemma BasePlayer_init_consistent: "BasePlayer_init f = Inr p \<Longrightarrow> consistent p"
  by (auto simp: BasePlayer_init_def consistent_def split: sum.splits)

lemma close_consistent: "consistent s \<Longrightarrow> consistent (snd (close s))"
  by (simp add: close_def consistent_def fp_close_def)

lemma conn_call_consistent: "consistent s \<Longrightarrow> consistent (snd (conn_call C c s))"
  by (simp add: conn_call_def consistent_def Let_def)

lemma get_next_packet_consistent:
  "consistent s \<Longrightarrow> consistent (snd (get_next_packet C s))"
  by (auto simp: get_next_packet_def fp_read_def fp_tell_def fp_close_def close_def
      consistent_def Let_def split: if_splits)

lemma anext_consistent: "consistent s \<Longrightarrow> consistent (snd (anext C s))"
  using get_next_packet_consistent [of s C]
  by (auto simp: anext_def split: prod.splits outcome.splits)

lemma send_consistent: "consistent s \<Longrightarrow> consistent (snd (send C d fl cf k s))"
  by (auto simp: send_def conn_call_def close_def fp_close_def consistent_def Let_def
      split: sum.splits option.splits)

lemma cleanup_consistent: "consistent s \<Longrightarrow> consistent (snd (cleanup s))"
  by (auto simp: cleanup_def fp_seek_def consistent_def split: if_splits)

lemma play_loop_consistent:
  "consistent self \<Longrightarrow> consistent (snd (play_loop C cf fl k self))"
proof (induction C cf fl k self rule: play_loop.induct)
  case (1 C c_flags flags continued self)
  obtain r s where a: "anext C self = (r, s)" by (cases "anext C self")
  from anext_consistent [OF "1.prems", of C] a have cs: "consistent s" by simp
  show ?case
  proof (cases r)
    case (Raised e)
    have "snd (play_loop C c_flags flags continued self)
            = (if caught_by e StopAsyncIteration then snd (conn_call C StopSpeaking s) else s)"
      by (subst play_loop.simps) (simp add: a Raised)
    then show ?thesis using cs conn_call_consistent [OF cs, of C StopSpeaking] by simp
  next
    case (Returned packet)
    obtain r' s' where b: "send C packet flags c_flags continued s = (r', s')"
      by (cases "send C packet flags c_flags continued s")
    from send_consistent [OF cs, of C packet flags c_flags continued] b
    have cs': "consistent s'" by simp
    show ?thesis
    proof (cases r')
      case (Raised e)
      have "snd (play_loop C c_flags flags continued self) = s'"
        by (subst play_loop.simps) (simp add: a Returned b Raised)
      then show ?thesis using cs' by simp
    next
      case inner: (Returned u)
      show ?thesis
      proof (cases "getFrameDur (int (length packet)) (SAMPLING_RATE C)")
        case (Inl e)
        have "snd (play_loop C c_flags flags continued self) = s'"
          by (subst play_loop.simps) (simp add: a Returned b inner Inl)
        then show ?thesis using cs' by simp
      next
        case (Inr dur)
        have "play_loop C c_flags flags continued self = play_loop C c_flags flags True s'"
          by (subst play_loop.simps) (simp add: a Returned b inner Inr)
        moreover have "(Returned packet, s) = anext C self"
          and "(Returned u, s') = send C packet flags c_flags continued s"
          using a Returned b inner by simp_all
        then have "consistent (snd (play_loop C c_flags flags True s'))"
          by (rule "1.IH" [OF _ refl _ refl Inr cs'])
        ultimately show ?thesis by simp
      qed
    qed
  qed
qed

lemma invoke_consistent: "consistent s \<Longrightarrow> consistent (snd (invoke C m s))"
proof (cases m)
  case (M_play cf fl)
  assume c: "consistent s"
  have "consistent (snd (play C cf fl s))"
    using play_loop_consistent [OF conn_call_consistent [OF c, of C WaitUntilReady],
        of C cf fl False]
      conn_call_consistent [OF c, of C WaitUntilReady]
    by (auto simp: play_def aiter_def split: prod.splits outcome.splits if_splits)
  then show ?thesis using M_play by simp
next
  case M_aexit
  assume c: "consistent s"
  then show ?thesis using M_aexit close_consistent [OF c]
    by (auto simp: aexit_def split: prod.splits outcome.splits)
qed (simp_all add: close_consistent get_next_packet_consistent anext_consistent
      send_consistent cleanup_consistent aiter_def)

text \<open>
  C10. On a consistent player (every player built by \<^verbatim>\<open>__init__\<close> and used through its
  methods is one): when the read of \<open>get_next_packet\<close> returns the empty byte string,
  \<open>get_next_packet\<close> closes the player and its file and raises \<open>EOFError\<close>, and \<^verbatim>\<open>__anext__\<close>
  raises \<open>StopAsyncIteration\<close> in its place. Hence the iteration of \<open>play\<close> over an open
  player ends: with an encoder and a connection that do not raise, \<open>play\<close> returns, and the
  player is closed.
\<close>

theorem end_of_input_stops_iteration:
  assumes "consistent self"
  shows "(\<forall>f. fp_read (FRAME_SIZE C) (fp self) = Inr ([], f) \<longrightarrow>
            get_next_packet C self
              = (Raised (raise EOFError),
                 self\<lparr>index := index self + 1, fp := fp_close f, closed := True\<rparr>)
          \<and> anext C self
              = (Raised (raise StopAsyncIteration),
                 self\<lparr>index := index self + 1, fp := fp_close f, closed := True\<rparr>))
       \<and> ((\<forall>d. \<exists>b. encode C d = Inr b) \<and> (\<forall>lg. conn_fails C lg = None)
            \<and> SAMPLING_RATE C div 1000 \<noteq> 0 \<and> \<not> closed self \<and> \<not> fclosed (fp self) \<longrightarrow>
            fst (play C c_flags flags self) = Returned ()
          \<and> closed (snd (play C c_flags flags self)))"
proof -
  have a: "get_next_packet C self
              = (Raised (raise EOFError),
                 self\<lparr>index := index self + 1, fp := fp_close f, closed := True\<rparr>)
          \<and> anext C self
              = (Raised (raise StopAsyncIteration),
                 self\<lparr>index := index self + 1, fp := fp_close f, closed := True\<rparr>)"
    if r: "fp_read (FRAME_SIZE C) (fp self) = Inr ([], f)" for f
  proof -
    from r have "\<not> fclosed (fp self)" by (auto simp: fp_read_def split: if_splits)
    with assms have nc: "\<not> closed self" by (auto simp: consistent_def)
    have g: "get_next_packet C self
              = (Raised (raise EOFError),
                 self\<lparr>index := index self + 1, fp := fp_close f, closed := True\<rparr>)"
      using r nc by (simp add: get_next_packet_def close_def Let_def)
    then show ?thesis by (simp add: anext_def caught_by_def issubclass_def)
  qed
  from a play_returns [of C self c_flags flags] show ?thesis by blast
qed

theorem end_of_input_stops_iteration_witness:
  "get_next_packet studio spent_player
     = (Raised (raise EOFError),
        spent_player\<lparr>index := 4, fp := tape\<lparr>offset := 5, fclosed := True\<rparr>, closed := True\<rparr>)
   \<and> anext studio spent_player
       = (Raised (raise StopAsyncIteration),
          spent_player\<lparr>index := 4, fp := tape\<lparr>offset := 5, fclosed := True\<rparr>,
                       closed := True\<rparr>)
   \<and> fst (play studio 5 0 fresh_player) = Returned ()
   \<and> closed (snd (play studio 5 0 fresh_player))"
proof -
  have c1: "consistent spent_player" and c2: "consistent fresh_player"
    by (simp_all add: consistent_def spent_player_def fresh_player_def)
  have r: "fp_read (FRAME_SIZE studio) (fp spent_player) = Inr ([], tape\<lparr>offset := 5\<rparr>)"
    by (simp add: fp_read_def studio_def spent_player_def fresh_player_def tape_def)
  have ok: "(\<forall>d. \<exists>b. encode studio d = Inr b) \<and> (\<forall>lg. conn_fails studio lg = None)
            \<and> SAMPLING_RATE studio div 1000 \<noteq> 0 \<and> \<not> closed fresh_player
            \<and> \<not> fclosed (fp fresh_player)"
    by (simp add: studio_def fresh_player_def tape_def)
  from end_of_input_stops_iteration [OF c1, of studio 5 0] r
  have a: "get_next_packet studio spent_player
             = (Raised (raise EOFError),
                spent_player\<lparr>index := index spent_player + 1,
                             fp := fp_close (tape\<lparr>offset := 5\<rparr>), closed := True\<rparr>)
         \<and> anext studio spent_player
             = (Raised (raise StopAsyncIteration),
                spent_player\<lparr>index := index spent_player + 1,
                             fp := fp_close (tape\<lparr>offset := 5\<rparr>), closed := True\<rparr>)"
    by blast
  have e: "spent_player\<lparr>index := index spent_player + 1,
                        fp := fp_close (tape\<lparr>offset := 5\<rparr>), closed := True\<rparr>
         = spent_player\<lparr>index := 4, fp := tape\<lparr>offset := 5, fclosed := True\<rparr>,
                        closed := True\<rparr>"
    by (simp add: spent_player_def fresh_player_def fp_close_def)
  from end_of_input_stops_iteration [OF c2, of studio 5 0] ok
  have b: "fst (play studio 5 0 fresh_player) = Returned ()
         \<and> closed (snd (play studio 5 0 fresh_player))"
    by blast
  from a b show ?thesis unfolding e by blast
qed

end
